theory Spec2Isabelle
  imports Complex_Main
begin

section \<open>Numbers of the candle frame\<close>

text \<open>
  The columns of the candle frame hold 64-bit floats. A value is modelled by the real
  number it denotes, or by one of the three special values. Comparisons are exact on
  these values and false whenever an operand is NaN, as in Python. Arithmetic is
  idealised: no rounding, no overflow to infinity, and no negative zero (a zero
  divisor counts as positive zero). Division never raises: numpy yields an infinity
  or NaN on a zero divisor.
\<close>

datatype pyfloat = NaN | NInf | Fin real | PInf

fun flt :: "pyfloat \<Rightarrow> pyfloat \<Rightarrow> bool" where
  "flt NaN _ = False"
| "flt _ NaN = False"
| "flt (Fin x) (Fin y) = (x < y)"
| "flt PInf _ = False"
| "flt _ NInf = False"
| "flt NInf _ = True"
| "flt _ PInf = True"

fun fge :: "pyfloat \<Rightarrow> pyfloat \<Rightarrow> bool" where
  "fge NaN _ = False"
| "fge _ NaN = False"
| "fge (Fin x) (Fin y) = (y \<le> x)"
| "fge PInf _ = True"
| "fge _ NInf = True"
| "fge NInf _ = False"
| "fge _ PInf = False"

fun fneg :: "pyfloat \<Rightarrow> pyfloat" where
  "fneg NaN = NaN"
| "fneg NInf = PInf"
| "fneg (Fin x) = Fin (- x)"
| "fneg PInf = NInf"

fun fadd :: "pyfloat \<Rightarrow> pyfloat \<Rightarrow> pyfloat" where
  "fadd NaN _ = NaN"
| "fadd _ NaN = NaN"
| "fadd (Fin x) (Fin y) = Fin (x + y)"
| "fadd PInf NInf = NaN"
| "fadd NInf PInf = NaN"
| "fadd PInf _ = PInf"
| "fadd _ PInf = PInf"
| "fadd NInf _ = NInf"
| "fadd _ NInf = NInf"

definition fsub :: "pyfloat \<Rightarrow> pyfloat \<Rightarrow> pyfloat" where
  "fsub a b = fadd a (fneg b)"

definition signed_inf :: "bool \<Rightarrow> pyfloat" where
  "signed_inf positive = (if positive then PInf else NInf)"

fun fmul :: "pyfloat \<Rightarrow> pyfloat \<Rightarrow> pyfloat" where
  "fmul NaN _ = NaN"
| "fmul _ NaN = NaN"
| "fmul (Fin x) (Fin y) = Fin (x * y)"
| "fmul (Fin x) PInf = (if x = 0 then NaN else signed_inf (0 < x))"
| "fmul (Fin x) NInf = (if x = 0 then NaN else signed_inf (x < 0))"
| "fmul PInf (Fin y) = (if y = 0 then NaN else signed_inf (0 < y))"
| "fmul NInf (Fin y) = (if y = 0 then NaN else signed_inf (y < 0))"
| "fmul PInf PInf = PInf"
| "fmul NInf NInf = PInf"
| "fmul PInf NInf = NInf"
| "fmul NInf PInf = NInf"

fun fdiv :: "pyfloat \<Rightarrow> pyfloat \<Rightarrow> pyfloat" where
  "fdiv NaN _ = NaN"
| "fdiv _ NaN = NaN"
| "fdiv (Fin x) (Fin y) =
     (if y \<noteq> 0 then Fin (x / y) else if x = 0 then NaN else signed_inf (0 < x))"
| "fdiv (Fin x) PInf = Fin 0"
| "fdiv (Fin x) NInf = Fin 0"
| "fdiv PInf (Fin y) = signed_inf (0 \<le> y)"
| "fdiv NInf (Fin y) = signed_inf (y < 0)"
| "fdiv PInf PInf = NaN"
| "fdiv PInf NInf = NaN"
| "fdiv NInf PInf = NaN"
| "fdiv NInf NInf = NaN"

section \<open>Market clock\<close>

text \<open>
  \<^verbatim>\<open>get_market_status\<close> reads the wall clock in US/Eastern. The reading is the
  parameter of the model: the weekday as Python numbers it (Monday is 0, Sunday is 6)
  and the time of day. \<^verbatim>\<open>market_open\<close> and \<^verbatim>\<open>market_close\<close> are the reading with the
  time of day replaced; all three share date and zone, so Python compares their
  (hour, minute, second, microsecond) fields in that order.
\<close>

record local_time =
  weekday :: nat
  hour :: nat
  minute :: nat
  second :: nat
  microsecond :: nat

definition replace_time :: "local_time \<Rightarrow> nat \<Rightarrow> nat \<Rightarrow> nat \<Rightarrow> nat \<Rightarrow> local_time" where
  "replace_time now h m s us = now\<lparr>hour := h, minute := m, second := s, microsecond := us\<rparr>"

definition dt_le :: "local_time \<Rightarrow> local_time \<Rightarrow> bool" where
  "dt_le a b =
     (hour a < hour b \<or> (hour a = hour b \<and>
       (minute a < minute b \<or> (minute a = minute b \<and>
         (second a < second b \<or> (second a = second b \<and>
           microsecond a \<le> microsecond b))))))"

definition get_market_status :: "local_time \<Rightarrow> bool" where
  "get_market_status now =
     (if weekday now \<ge> 5 then False
      else let market_open = replace_time now 9 30 0 0;
               market_close = replace_time now 16 0 0 0
           in dt_le market_open now \<and> dt_le now market_close)"

text \<open>
  The readings a clock can give, and the time of day in microseconds since midnight.
\<close>

definition valid_time :: "local_time \<Rightarrow> bool" where
  "valid_time t = (weekday t < 7 \<and> hour t < 24 \<and> minute t < 60 \<and> second t < 60
     \<and> microsecond t < 1000000)"

definition micros_of_day :: "local_time \<Rightarrow> nat" where
  "micros_of_day t = ((hour t * 60 + minute t) * 60 + second t) * 1000000 + microsecond t"

section \<open>Candle source\<close>

text \<open>
  A ticker is a string. An entry of a frame's index is a pandas \<^verbatim>\<open>Timestamp\<close> or the
  missing value \<^verbatim>\<open>NaT\<close>. A \<^verbatim>\<open>Timestamp\<close> is modelled by its rendering \<^verbatim>\<open>str(ts)\<close>,
  the only form in which the program uses it for identity (the dedup keys are
  \<^verbatim>\<open>f"{ticker}_{ts}"\<close>). \<^verbatim>\<open>str\<close> renders the missing value as \<^verbatim>\<open>NaT\<close>;
  \<^verbatim>\<open>strftime\<close> raises on it.
\<close>

type_synonym ticker = string
type_synonym timestamp = string

datatype pd_time = NaT | Stamp timestamp

fun str_time :: "pd_time \<Rightarrow> string" where
  "str_time NaT = ''NaT''"
| "str_time (Stamp ts) = ts"

text \<open>
  \<open>None\<close> when \<^verbatim>\<open>strftime\<close> raises. The text it returns for a \<^verbatim>\<open>Timestamp\<close> (the time
  of day) is represented by the timestamp itself.
\<close>

fun strftime :: "pd_time \<Rightarrow> timestamp option" where
  "strftime NaT = None"
| "strftime (Stamp ts) = Some ts"

text \<open>
  A bar is one row of the frame that \<^verbatim>\<open>yf.download\<close> returns; a candle is that row
  with the three columns \<^verbatim>\<open>get_5min_candles\<close> adds. The type of the index entries
  is a parameter: a \<open>pd_time bar\<close> is a row of any frame, a \<open>timestamp bar\<close> is a row
  of a frame whose index holds no \<^verbatim>\<open>NaT\<close>.
\<close>

record 'i bar =
  index_time :: 'i
  Open :: pyfloat
  High :: pyfloat
  Low :: pyfloat
  Close :: pyfloat
  Volume :: pyfloat

record 'i candle = "'i bar" +
  volume_avg_20 :: pyfloat
  volume_ratio :: pyfloat
  candle_move_pct :: pyfloat

text \<open>
  What the outside world does when called: \<^verbatim>\<open>yf.download\<close> raises or returns a frame
  (possibly empty); the webhook request is delivered, fails on the network
  (\<^verbatim>\<open>requests.post\<close> raises) or is answered with an error status
  (\<^verbatim>\<open>raise_for_status\<close> raises). One evaluation makes at most one request for a
  spike alert and one for an entry signal; \<open>spike_post\<close> and \<open>entry_post\<close> are
  their outcomes.
\<close>

datatype 'i download_result = DownloadRaises | Frame "'i bar list"

datatype post_result = Delivered | ConnectionError | HTTPError

record 'i world =
  download :: "'i download_result"
  spike_post :: post_result
  entry_post :: post_result

text \<open>
  The text of an alert is represented by the values interpolated into it; the
  rendering (\<^verbatim>\<open>:.2f\<close> for numbers, \<^verbatim>\<open>%H:%M:%S ET\<close> for the time) is not modelled, nor
  is the \<^verbatim>\<open>utcnow\<close> stamp of the embed.
  Spike message: ticker, spike move, volume ratio, price, time.
  Entry message: ticker, entry, stop, risk, time.
\<close>

datatype title = Spike_Alert ticker | Entry_Signal ticker

datatype message =
    Spike_Message ticker pyfloat pyfloat pyfloat timestamp
  | Entry_Message ticker pyfloat pyfloat pyfloat timestamp

record alert =
  title :: title
  description :: message
  color :: nat

datatype log_entry =
    Info_starting "ticker list"
  | Error_webhook_not_set
  | Info_market_open nat
  | Info_market_closed
  | Info_alert_sent title
  | Error_send_failed post_result
  | Error_fetching ticker
  | Error_checking ticker

text \<open>
  The two module-level dictionaries, the webhook requests made so far with their
  outcome, and the log.
\<close>

record state =
  alerted_spikes :: "string \<rightharpoonup> timestamp"
  alerted_deaths :: "string \<rightharpoonup> timestamp"
  posted :: "(alert \<times> post_result) list"
  logged :: "log_entry list"

definition initial_state :: state where
  "initial_state = \<lparr>alerted_spikes = Map.empty, alerted_deaths = Map.empty,
     posted = [], logged = []\<rparr>"

text \<open>
  \<^verbatim>\<open>Series.rolling(n).mean()\<close>: the window of row \<open>i\<close> is row \<open>i\<close> and the \<open>n - 1\<close>
  rows before it; with fewer than \<open>n\<close> rows in the window the result is NaN, and so
  it is when the window holds a NaN. The mean is the sum of the window divided by its
  length; how pandas' running sum treats a window that holds an infinity is not
  modelled beyond that.
\<close>

definition window_mean :: "pyfloat list \<Rightarrow> pyfloat" where
  "window_mean w = fdiv (foldl fadd (Fin 0) w) (Fin (real (length w)))"

definition rolling_mean :: "nat \<Rightarrow> pyfloat list \<Rightarrow> pyfloat list" where
  "rolling_mean n xs =
     map (\<lambda>i. if i + 1 < n then NaN else window_mean (take n (drop (i + 1 - n) xs)))
       [0..<length xs]"

definition add_columns :: "'i bar \<Rightarrow> pyfloat \<Rightarrow> 'i candle" where
  "add_columns b avg =
     \<lparr>index_time = index_time b, Open = Open b, High = High b, Low = Low b,
      Close = Close b, Volume = Volume b,
      volume_avg_20 = avg,
      volume_ratio = fdiv (Volume b) avg,
      candle_move_pct = fmul (fdiv (fsub (Close b) (Open b)) (Open b)) (Fin 100)\<rparr>"

definition derive :: "'i bar list \<Rightarrow> 'i candle list" where
  "derive df = map (\<lambda>(b, avg). add_columns b avg) (zip df (rolling_mean 20 (map Volume df)))"

definition tail :: "nat \<Rightarrow> 'a list \<Rightarrow> 'a list" where
  "tail limit df = drop (length df - limit) df"

definition get_5min_candles ::
  "'i download_result \<Rightarrow> ticker \<Rightarrow> nat \<Rightarrow> state \<Rightarrow> 'i candle list option \<times> state" where
  "get_5min_candles dl ticker limit st =
     (case dl of
        DownloadRaises \<Rightarrow> (None, st\<lparr>logged := logged st @ [Error_fetching ticker]\<rparr>)
      | Frame df \<Rightarrow> if df = [] then (None, st) else (Some (tail limit (derive df)), st))"

section \<open>Alert sink\<close>

definition send_discord_alert :: "post_result \<Rightarrow> title \<Rightarrow> message \<Rightarrow> nat \<Rightarrow> state \<Rightarrow> state" where
  "send_discord_alert r t m c st =
     st\<lparr>posted := posted st @ [(\<lparr>title = t, description = m, color = c\<rparr>, r)],
        logged := logged st @ [if r = Delivered then Info_alert_sent t else Error_send_failed r]\<rparr>"

section \<open>Pattern detector\<close>

definition make_key :: "ticker \<Rightarrow> timestamp \<Rightarrow> string" where
  "make_key ticker ts = ticker @ ''_'' @ ts"

text \<open>
  The body of the \<^verbatim>\<open>try\<close> of \<^verbatim>\<open>check_spike_and_death_candle\<close> either returns or
  raises. The dictionaries are module-level, so what was written before an exception
  stays written: both outcomes carry the state that was reached.
\<close>

datatype outcome = Returned state | Raised state

fun reached :: "outcome \<Rightarrow> state" where
  "reached (Returned st) = st"
| "reached (Raised st) = st"

text \<open>
  Lines 96 to 114: the spike alert, once per spike key. The message is built before
  it is sent, and building it calls \<^verbatim>\<open>prev_time.strftime\<close> (line 104), which raises
  when the index entry is \<^verbatim>\<open>NaT\<close>. The key is recorded after \<^verbatim>\<open>send_discord_alert\<close>
  has returned, whatever the webhook did. The column \<^verbatim>\<open>volume_ratio\<close> is in every row
  that \<^verbatim>\<open>get_5min_candles\<close> returns, so the default of 0 for a missing column is never
  taken.
\<close>

definition spike_branch ::
  "pd_time world \<Rightarrow> ticker \<Rightarrow> pd_time candle \<Rightarrow> pd_time candle \<Rightarrow> state \<Rightarrow> outcome" where
  "spike_branch w ticker prev_candle current_candle st =
     (let spike_key = make_key ticker (str_time (index_time prev_candle))
      in if alerted_spikes st spike_key = None
         then (case strftime (index_time prev_candle) of
                 None \<Rightarrow> Raised st
               | Some shown \<Rightarrow>
                   (let st' = send_discord_alert (spike_post w) (Spike_Alert ticker)
                                (Spike_Message ticker (candle_move_pct prev_candle)
                                   (volume_ratio prev_candle) (Close prev_candle) shown)
                                16711680 st
                    in Returned (st'\<lparr>alerted_spikes := (alerted_spikes st')
                         (spike_key \<mapsto> str_time (index_time current_candle))\<rparr>)))
         else Returned st)"

text \<open>
  Lines 116 to 141: the entry signal, once per death key. Building the message calls
  \<^verbatim>\<open>current_time.strftime\<close> (line 132).
\<close>

definition death_branch ::
  "pd_time world \<Rightarrow> ticker \<Rightarrow> pd_time candle \<Rightarrow> pd_time candle \<Rightarrow> state \<Rightarrow> outcome" where
  "death_branch w ticker prev_candle current_candle st =
     (if flt (Close current_candle) (Open current_candle)
      then (let death_key = make_key ticker (str_time (index_time current_candle))
            in if alerted_deaths st death_key = None
               then (let hod_price = High prev_candle;
                         risk_pct = fmul (fdiv (fsub hod_price (Close current_candle))
                                      (Close current_candle)) (Fin 100)
                     in case strftime (index_time current_candle) of
                          None \<Rightarrow> Raised st
                        | Some shown \<Rightarrow>
                            (let st' = send_discord_alert (entry_post w) (Entry_Signal ticker)
                                         (Entry_Message ticker (Open current_candle) hod_price
                                            risk_pct shown)
                                         65280 st
                             in Returned (st'\<lparr>alerted_deaths := (alerted_deaths st')
                                  (death_key \<mapsto> str_time (index_time current_candle))\<rparr>)))
               else Returned st)
      else Returned st)"

text \<open>
  The evaluation of a frame of at least two candles: \<open>current_candle\<close> is the last
  row, \<open>prev_candle\<close> the one before it. An exception in the spike branch leaves the
  rest of the body undone.
\<close>

definition check_frame :: "pd_time world \<Rightarrow> ticker \<Rightarrow> pd_time candle list \<Rightarrow> state \<Rightarrow> outcome" where
  "check_frame w ticker df st =
     (let current_candle = df ! (length df - 1);
          prev_candle = df ! (length df - 2);
          spike_move = candle_move_pct prev_candle
      in if fge spike_move (Fin 10)
         then (case spike_branch w ticker prev_candle current_candle st of
                 Raised st' \<Rightarrow> Raised st'
               | Returned st' \<Rightarrow> death_branch w ticker prev_candle current_candle st')
         else Returned st)"

text \<open>Lines 79 to 141, the body of the \<^verbatim>\<open>try\<close>.\<close>

definition try_body :: "pd_time world \<Rightarrow> ticker \<Rightarrow> state \<Rightarrow> outcome" where
  "try_body w ticker st =
     (case get_5min_candles (download w) ticker 100 st of
        (None, st') \<Rightarrow> Returned st'
      | (Some df, st') \<Rightarrow>
          if length df < 2 then Returned st' else check_frame w ticker df st')"

text \<open>
  \<^verbatim>\<open>check_spike_and_death_candle\<close> on any frame: the body, and the handler of lines 143
  and 144, which logs the exception and returns.
\<close>

definition check_spike_and_death_candle_any :: "pd_time world \<Rightarrow> ticker \<Rightarrow> state \<Rightarrow> state" where
  "check_spike_and_death_candle_any w ticker st =
     (case try_body w ticker st of
        Returned st' \<Rightarrow> st'
      | Raised st' \<Rightarrow> st'\<lparr>logged := logged st' @ [Error_checking ticker]\<rparr>)"

text \<open>
  A frame whose index holds only \<^verbatim>\<open>Timestamp\<close>s, as pandas holds it, and
  \<^verbatim>\<open>check_spike_and_death_candle\<close> on such a frame.
\<close>

definition stamped_bar :: "timestamp bar \<Rightarrow> pd_time bar" where
  "stamped_bar b =
     \<lparr>index_time = Stamp (index_time b), Open = Open b, High = High b, Low = Low b,
      Close = Close b, Volume = Volume b\<rparr>"

definition stamped_candle :: "timestamp candle \<Rightarrow> pd_time candle" where
  "stamped_candle c =
     \<lparr>index_time = Stamp (index_time c), Open = Open c, High = High c, Low = Low c,
      Close = Close c, Volume = Volume c,
      volume_avg_20 = volume_avg_20 c, volume_ratio = volume_ratio c,
      candle_move_pct = candle_move_pct c\<rparr>"

fun stamped_download :: "timestamp download_result \<Rightarrow> pd_time download_result" where
  "stamped_download DownloadRaises = DownloadRaises"
| "stamped_download (Frame df) = Frame (map stamped_bar df)"

definition stamped :: "timestamp world \<Rightarrow> pd_time world" where
  "stamped w = \<lparr>download = stamped_download (download w), spike_post = spike_post w,
     entry_post = entry_post w\<rparr>"

definition check_spike_and_death_candle :: "timestamp world \<Rightarrow> ticker \<Rightarrow> state \<Rightarrow> state" where
  "check_spike_and_death_candle w ticker st =
     check_spike_and_death_candle_any (stamped w) ticker st"

text \<open>
  What the two branches leave on a frame with timestamps, where neither raises.
\<close>

definition spike_effect ::
  "timestamp world \<Rightarrow> ticker \<Rightarrow> timestamp candle \<Rightarrow> timestamp candle \<Rightarrow> state \<Rightarrow> state" where
  "spike_effect w ticker prev_candle current_candle st =
     reached (spike_branch (stamped w) ticker (stamped_candle prev_candle)
       (stamped_candle current_candle) st)"

definition death_effect ::
  "timestamp world \<Rightarrow> ticker \<Rightarrow> timestamp candle \<Rightarrow> timestamp candle \<Rightarrow> state \<Rightarrow> state" where
  "death_effect w ticker prev_candle current_candle st =
     reached (death_branch (stamped w) ticker (stamped_candle prev_candle)
       (stamped_candle current_candle) st)"

section \<open>Monitor loop\<close>

text \<open>
  One cycle reads the clock once and meets one world per configured stock (by
  position in the list). The endless loop is modelled by the list of the cycles it
  has run so far; the pauses between stocks and between cycles are not modelled.
  \<^verbatim>\<open>STOCKS\<close> and \<^verbatim>\<open>WEBHOOK_URL\<close> are parameters; an unset or empty address
  ends \<^verbatim>\<open>main_loop\<close> before the first cycle. \<^verbatim>\<open>check_spike_and_death_candle\<close> returns
  for every stock, so the loop over the stocks is never left early and the handler of
  the cycle (lines 167 to 169) is never entered.
\<close>

record cycle_input =
  now :: local_time
  env :: "nat \<Rightarrow> pd_time world"

fun for_stocks :: "(nat \<Rightarrow> pd_time world) \<Rightarrow> nat \<Rightarrow> ticker list \<Rightarrow> state \<Rightarrow> state" where
  "for_stocks e i [] st = st"
| "for_stocks e i (stock # rest) st =
     for_stocks e (Suc i) rest (check_spike_and_death_candle_any (e i) stock st)"

definition cycle :: "ticker list \<Rightarrow> cycle_input \<Rightarrow> state \<Rightarrow> state" where
  "cycle stocks c st =
     (if get_market_status (now c)
      then for_stocks (env c) 0 stocks (st\<lparr>logged := logged st @ [Info_market_open (length stocks)]\<rparr>)
      else st\<lparr>logged := logged st @ [Info_market_closed]\<rparr>)"

fun cycles :: "ticker list \<Rightarrow> cycle_input list \<Rightarrow> state \<Rightarrow> state" where
  "cycles stocks [] st = st"
| "cycles stocks (c # cs) st = cycles stocks cs (cycle stocks c st)"

definition main_loop :: "string option \<Rightarrow> ticker list \<Rightarrow> cycle_input list \<Rightarrow> state" where
  "main_loop webhook_url stocks cs =
     (let st = initial_state\<lparr>logged := [Info_starting stocks]\<rparr>
      in if webhook_url = None \<or> webhook_url = Some []
         then st\<lparr>logged := logged st @ [Error_webhook_not_set]\<rparr>
         else cycles stocks cs st)"

section \<open>Reading the alerts back\<close>

definition is_spike :: "alert \<Rightarrow> bool" where
  "is_spike a = (case title a of Spike_Alert _ \<Rightarrow> True | Entry_Signal _ \<Rightarrow> False)"

definition is_entry :: "alert \<Rightarrow> bool" where
  "is_entry a = (case title a of Spike_Alert _ \<Rightarrow> False | Entry_Signal _ \<Rightarrow> True)"

definition alert_key :: "alert \<Rightarrow> string" where
  "alert_key a = (case description a of
       Spike_Message tk _ _ _ ts \<Rightarrow> make_key tk ts
     | Entry_Message tk _ _ _ ts \<Rightarrow> make_key tk ts)"

definition alerts :: "state \<Rightarrow> alert list" where
  "alerts st = map fst (posted st)"

definition spike_keys :: "state \<Rightarrow> string list" where
  "spike_keys st = map alert_key (filter is_spike (alerts st))"

definition entry_keys :: "state \<Rightarrow> string list" where
  "entry_keys st = map alert_key (filter is_entry (alerts st))"

text \<open>The alerts that an evaluation added to those of the state it started from.\<close>

definition emitted :: "state \<Rightarrow> state \<Rightarrow> alert list" where
  "emitted st st' = drop (length (posted st)) (alerts st')"

text \<open>The two rows an evaluation looks at: \<^verbatim>\<open>df.iloc[-2]\<close> and \<^verbatim>\<open>df.iloc[-1]\<close>.\<close>

definition prev_of :: "'i candle list \<Rightarrow> 'i candle" where
  "prev_of df = df ! (length df - 2)"

definition current_of :: "'i candle list \<Rightarrow> 'i candle" where
  "current_of df = df ! (length df - 1)"

text \<open>How often an alert of one kind was posted under one key.\<close>

definition spike_count :: "string \<Rightarrow> state \<Rightarrow> nat" where
  "spike_count k st = length (filter (\<lambda>a. is_spike a \<and> alert_key a = k) (alerts st))"

definition entry_count :: "string \<Rightarrow> state \<Rightarrow> nat" where
  "entry_count k st = length (filter (\<lambda>a. is_entry a \<and> alert_key a = k) (alerts st))"

text \<open>The invariant that ties the posted alerts to the two dictionaries.\<close>

definition dedup_inv :: "state \<Rightarrow> bool" where
  "dedup_inv st =
     (distinct (spike_keys st) \<and> set (spike_keys st) \<subseteq> dom (alerted_spikes st) \<and>
      distinct (entry_keys st) \<and> set (entry_keys st) \<subseteq> dom (alerted_deaths st))"

text \<open>The time of day in whole seconds.\<close>

definition seconds_of_day :: "local_time \<Rightarrow> nat" where
  "seconds_of_day t = (hour t * 60 + minute t) * 60 + second t"

section \<open>Example frames\<close>

text \<open>
  A candle that rises from 10 to 11.50 (15 percent) with a high of 12, the red
  candle after it (open 10, close 9.50), a candle that rises by exactly 10 percent
  and one that rises by 9.999 percent; worlds built from them.
\<close>

definition spike_bar :: "timestamp bar" where
  "spike_bar = \<lparr>index_time = ''2024-01-03 10:00:00-05:00'', Open = Fin 10, High = Fin 12,
     Low = Fin 10, Close = Fin (23 / 2), Volume = Fin 500000\<rparr>"

definition red_bar :: "timestamp bar" where
  "red_bar = \<lparr>index_time = ''2024-01-03 10:05:00-05:00'', Open = Fin 10, High = Fin 10,
     Low = Fin 9, Close = Fin (19 / 2), Volume = Fin 300000\<rparr>"

definition exact_bar :: "timestamp bar" where
  "exact_bar = \<lparr>index_time = ''2024-01-03 10:00:00-05:00'', Open = Fin 10, High = Fin 11,
     Low = Fin 10, Close = Fin 11, Volume = Fin 500000\<rparr>"

definition near_bar :: "timestamp bar" where
  "near_bar = \<lparr>index_time = ''2024-01-03 10:00:00-05:00'', Open = Fin 100000,
     High = Fin 109999, Low = Fin 100000, Close = Fin 109999, Volume = Fin 500000\<rparr>"

definition frame_world :: "'i bar list \<Rightarrow> post_result \<Rightarrow> 'i world" where
  "frame_world df r = \<lparr>download = Frame df, spike_post = r, entry_post = r\<rparr>"

definition spike_world :: "timestamp world" where
  "spike_world = frame_world [spike_bar, red_bar] Delivered"

definition failing_fetch :: "timestamp world" where
  "failing_fetch = \<lparr>download = DownloadRaises, spike_post = Delivered, entry_post = Delivered\<rparr>"

definition failing_webhook :: "timestamp world" where
  "failing_webhook = frame_world [spike_bar, red_bar] ConnectionError"

text \<open>
  A frame whose index has lost its timestamps, and the worlds that four stocks meet
  in one cycle: a download that raises, a frame without timestamps, an unreachable
  webhook, and a world in which all goes well.
\<close>

definition lost_index :: "timestamp bar \<Rightarrow> pd_time bar" where
  "lost_index b = (stamped_bar b)\<lparr>index_time := NaT\<rparr>"

definition missing_index :: "pd_time world" where
  "missing_index = frame_world [lost_index spike_bar, lost_index red_bar] Delivered"

definition mixed_env :: "nat \<Rightarrow> pd_time world" where
  "mixed_env i = (if i = 0 then stamped failing_fetch
     else if i = 1 then missing_index
     else if i = 2 then stamped failing_webhook
     else stamped spike_world)"

definition later_cycle :: cycle_input where
  "later_cycle = \<lparr>now = \<lparr>weekday = 2, hour = 10, minute = 10, second = 0, microsecond = 0\<rparr>,
     env = (\<lambda>_. stamped spike_world)\<rparr>"

section \<open>Frames that differ in volume only\<close>

text \<open>
  Two downloads are the same but for volume when both raise or both return frames
  whose rows agree in every column other than \<^verbatim>\<open>Volume\<close>. An alert without its
  ratio is the alert with the volume ratio of a spike message blanked; the kind and
  key of an alert are its title and its dedup key.
\<close>

definition without_volume :: "'i bar \<Rightarrow> 'i bar" where
  "without_volume b = b\<lparr>Volume := NaN\<rparr>"

fun same_but_volume :: "'i download_result \<Rightarrow> 'i download_result \<Rightarrow> bool" where
  "same_but_volume (Frame a) (Frame b) = (map without_volume a = map without_volume b)"
| "same_but_volume DownloadRaises DownloadRaises = True"
| "same_but_volume _ _ = False"

definition without_ratio :: "alert \<Rightarrow> alert" where
  "without_ratio a =
     (case description a of
        Spike_Message tk mv vr pr ts \<Rightarrow> a\<lparr>description := Spike_Message tk mv NaN pr ts\<rparr>
      | Entry_Message _ _ _ _ _ \<Rightarrow> a)"

definition kind_and_key :: "alert \<Rightarrow> title \<times> string" where
  "kind_and_key a = (title a, alert_key a)"

definition price_part :: "'i candle \<Rightarrow> 'i \<times> pyfloat \<times> pyfloat \<times> pyfloat \<times> pyfloat" where
  "price_part c = (index_time c, Open c, High c, Close c, candle_move_pct c)"

definition thin_volume :: "timestamp world" where
  "thin_volume = \<lparr>download = Frame [spike_bar\<lparr>Volume := Fin 1\<rparr>, red_bar\<lparr>Volume := NaN\<rparr>],
     spike_post = HTTPError, entry_post = ConnectionError\<rparr>"

section \<open>Properties of the market clock\<close>

lemma micros_split: "micros_of_day t = seconds_of_day t * 1000000 + microsecond t"
  by (simp add: micros_of_day_def seconds_of_day_def)

lemma dt_le_open:
  assumes "minute t < 60" "second t < 60"
  shows "dt_le (replace_time t 9 30 0 0) t = (34200 \<le> seconds_of_day t)"
  using assms unfolding dt_le_def replace_time_def seconds_of_day_def
  by simp linarith

lemma dt_le_close:
  assumes "minute t < 60" "second t < 60"
  shows "dt_le t (replace_time t 16 0 0 0) =
    (seconds_of_day t < 57600 \<or> (seconds_of_day t = 57600 \<and> microsecond t = 0))"
  using assms unfolding dt_le_def replace_time_def seconds_of_day_def
  by simp linarith

lemma micros_lower:
  "microsecond t < 1000000 \<Longrightarrow> (34200000000 \<le> micros_of_day t) = (34200 \<le> seconds_of_day t)"
  unfolding micros_split by linarith

lemma micros_upper:
  "microsecond t < 1000000 \<Longrightarrow> (micros_of_day t \<le> 57600000000) =
    (seconds_of_day t < 57600 \<or> (seconds_of_day t = 57600 \<and> microsecond t = 0))"
  unfolding micros_split by linarith

text \<open>
  C5. On Saturday and Sunday (weekday 5 and 6) the market is closed whatever the time
  of day. On a weekday it is open exactly when the local time of day lies between
  09:30:00 and 16:00:00, both ends included; the time of day is counted in
  microseconds since midnight, so 09:30:00 is 34200000000 and 16:00:00 is 57600000000.
\<close>

theorem market_open_iff:
  "(5 \<le> weekday t \<longrightarrow> \<not> get_market_status t) \<and>
   (weekday t < 5 \<and> valid_time t \<longrightarrow>
      get_market_status t =
        (34200000000 \<le> micros_of_day t \<and> micros_of_day t \<le> 57600000000))"
proof (intro conjI impI)
  assume "5 \<le> weekday t"
  then show "\<not> get_market_status t" by (simp add: get_market_status_def)
next
  assume a: "weekday t < 5 \<and> valid_time t"
  then have m: "minute t < 60" and s: "second t < 60" and u: "microsecond t < 1000000"
    by (simp_all add: valid_time_def)
  from a show "get_market_status t =
        (34200000000 \<le> micros_of_day t \<and> micros_of_day t \<le> 57600000000)"
    by (simp add: get_market_status_def Let_def dt_le_open [OF m s] dt_le_close [OF m s]
        micros_lower [OF u] micros_upper [OF u])
qed

text \<open>
  A Wednesday at 09:30:00 is open, the same day at 16:00:01 is closed, and a Saturday
  at noon is closed.
\<close>

theorem market_open_iff_witness:
  "get_market_status \<lparr>weekday = 2, hour = 9, minute = 30, second = 0, microsecond = 0\<rparr> \<and>
   \<not> get_market_status \<lparr>weekday = 2, hour = 16, minute = 0, second = 1, microsecond = 0\<rparr> \<and>
   \<not> get_market_status \<lparr>weekday = 5, hour = 12, minute = 0, second = 0, microsecond = 0\<rparr>"
  using
    market_open_iff [of "\<lparr>weekday = 2, hour = 9, minute = 30, second = 0, microsecond = 0\<rparr>"]
    market_open_iff [of "\<lparr>weekday = 2, hour = 16, minute = 0, second = 1, microsecond = 0\<rparr>"]
    market_open_iff [of "\<lparr>weekday = 5, hour = 12, minute = 0, second = 0, microsecond = 0\<rparr>"]
  by (simp add: valid_time_def micros_of_day_def)

section \<open>Field lemmas\<close>

lemma send_fields:
  "alerted_spikes (send_discord_alert r t m c st) = alerted_spikes st"
  "alerted_deaths (send_discord_alert r t m c st) = alerted_deaths st"
  "posted (send_discord_alert r t m c st) =
     posted st @ [(\<lparr>title = t, description = m, color = c\<rparr>, r)]"
  by (simp_all add: send_discord_alert_def)

lemma send_logged:
  "logged (send_discord_alert r t m c st) =
     logged st @ [if r = Delivered then Info_alert_sent t else Error_send_failed r]"
  by (simp add: send_discord_alert_def)

lemma strftime_str: "strftime t = (if t = NaT then None else Some (str_time t))"
  by (cases t) simp_all

text \<open>When the two branches raise, and the state they leave then.\<close>

lemma spike_branch_Raised:
  "(spike_branch w tk p c st = Raised s) =
     (alerted_spikes st (make_key tk (str_time (index_time p))) = None \<and>
      index_time p = NaT \<and> s = st)"
  by (auto simp: spike_branch_def Let_def strftime_str)

lemma death_branch_Raised:
  "(death_branch w tk p c st = Raised s) =
     (flt (Close c) (Open c) \<and>
      alerted_deaths st (make_key tk (str_time (index_time c))) = None \<and>
      index_time c = NaT \<and> s = st)"
  by (auto simp: death_branch_def Let_def strftime_str)

lemma spike_branch_deaths:
  "alerted_deaths (reached (spike_branch w tk p c st)) = alerted_deaths st"
  by (simp add: spike_branch_def Let_def send_fields strftime_str)

lemma spike_branch_spikes:
  "alerted_spikes (reached (spike_branch w tk p c st)) =
     (if alerted_spikes st (make_key tk (str_time (index_time p))) = None \<and>
         index_time p \<noteq> NaT
      then (alerted_spikes st)(make_key tk (str_time (index_time p)) \<mapsto>
             str_time (index_time c))
      else alerted_spikes st)"
  by (simp add: spike_branch_def Let_def send_fields strftime_str)

lemma spike_branch_posted:
  "posted (reached (spike_branch w tk p c st)) =
     posted st @
     (if alerted_spikes st (make_key tk (str_time (index_time p))) = None \<and>
         index_time p \<noteq> NaT
      then [(\<lparr>title = Spike_Alert tk,
               description = Spike_Message tk (candle_move_pct p) (volume_ratio p) (Close p)
                 (str_time (index_time p)),
               color = 16711680\<rparr>, spike_post w)]
      else [])"
  by (simp add: spike_branch_def Let_def send_fields strftime_str)

lemma death_branch_spikes:
  "alerted_spikes (reached (death_branch w tk p c st)) = alerted_spikes st"
  by (simp add: death_branch_def Let_def send_fields strftime_str)

lemma death_branch_deaths:
  "alerted_deaths (reached (death_branch w tk p c st)) =
     (if flt (Close c) (Open c) \<and>
         alerted_deaths st (make_key tk (str_time (index_time c))) = None \<and>
         index_time c \<noteq> NaT
      then (alerted_deaths st)(make_key tk (str_time (index_time c)) \<mapsto>
             str_time (index_time c))
      else alerted_deaths st)"
  by (simp add: death_branch_def Let_def send_fields strftime_str)

lemma death_branch_posted:
  "posted (reached (death_branch w tk p c st)) =
     posted st @
     (if flt (Close c) (Open c) \<and>
         alerted_deaths st (make_key tk (str_time (index_time c))) = None \<and>
         index_time c \<noteq> NaT
      then [(\<lparr>title = Entry_Signal tk,
               description = Entry_Message tk (Open c) (High p)
                 (fmul (fdiv (fsub (High p) (Close c)) (Close c)) (Fin 100))
                 (str_time (index_time c)),
               color = 65280\<rparr>, entry_post w)]
      else [])"
  by (simp add: death_branch_def Let_def send_fields strftime_str)

lemmas branch_fields = spike_branch_deaths spike_branch_spikes spike_branch_posted
  death_branch_spikes death_branch_deaths death_branch_posted

lemma branch_logged:
  "logged (reached (spike_branch w tk p c st)) =
     logged st @ (if alerted_spikes st (make_key tk (str_time (index_time p))) = None \<and>
                     index_time p \<noteq> NaT
       then [if spike_post w = Delivered then Info_alert_sent (Spike_Alert tk)
             else Error_send_failed (spike_post w)] else [])"
  "logged (reached (death_branch w tk p c st)) =
     logged st @ (if flt (Close c) (Open c) \<and>
                     alerted_deaths st (make_key tk (str_time (index_time c))) = None \<and>
                     index_time c \<noteq> NaT
       then [if entry_post w = Delivered then Info_alert_sent (Entry_Signal tk)
             else Error_send_failed (entry_post w)] else [])"
  by (simp_all add: spike_branch_def death_branch_def Let_def send_logged strftime_str)

lemma get_5min_candles_Some:
  "get_5min_candles d tk n st = (Some df, st') \<Longrightarrow> st' = st"
  by (auto simp: get_5min_candles_def split: download_result.splits if_splits)

lemma get_5min_candles_fields:
  "alerted_spikes (snd (get_5min_candles d tk n st)) = alerted_spikes st"
  "alerted_deaths (snd (get_5min_candles d tk n st)) = alerted_deaths st"
  "posted (snd (get_5min_candles d tk n st)) = posted st"
  by (simp_all add: get_5min_candles_def split: download_result.splits)

text \<open>The evaluation of any frame, by the outcome of its two branches.\<close>

lemma try_body_on_frame:
  assumes "get_5min_candles (download w) tk 100 st = (Some df, st')" "2 \<le> length df"
  shows "try_body w tk st =
     (if fge (candle_move_pct (prev_of df)) (Fin 10)
      then (case spike_branch w tk (prev_of df) (current_of df) st of
              Raised s \<Rightarrow> Raised s
            | Returned s \<Rightarrow> death_branch w tk (prev_of df) (current_of df) s)
      else Returned st)"
  using assms get_5min_candles_Some [OF assms(1)]
  unfolding prev_of_def current_of_def
  by (simp add: try_body_def check_frame_def Let_def split: outcome.split)

lemma try_body_no_frame:
  assumes "get_5min_candles (download w) tk 100 st = (r, st')"
    "r = None \<or> (\<exists>df. r = Some df \<and> length df < 2)"
  shows "try_body w tk st = Returned st'"
  using assms by (auto simp: try_body_def)

text \<open>
  Log aside, an evaluation leaves the state it found, the state after the spike
  branch, or the state after both branches.
\<close>

lemma check_any_cases:
  obtains s where
    "s = st \<or>
     (\<exists>p c. s = reached (spike_branch w tk p c st)) \<or>
     (\<exists>p c. s = reached (death_branch w tk p c (reached (spike_branch w tk p c st))))"
    "alerted_spikes (check_spike_and_death_candle_any w tk st) = alerted_spikes s"
    "alerted_deaths (check_spike_and_death_candle_any w tk st) = alerted_deaths s"
    "posted (check_spike_and_death_candle_any w tk st) = posted s"
proof (cases "get_5min_candles (download w) tk 100 st")
  case (Pair r st')
  have f: "alerted_spikes st' = alerted_spikes st" "alerted_deaths st' = alerted_deaths st"
      "posted st' = posted st"
    using get_5min_candles_fields [of "download w" tk 100 st] Pair by simp_all
  show thesis
  proof (cases "\<exists>df. r = Some df \<and> 2 \<le> length df")
    case False
    then have "r = None \<or> (\<exists>df. r = Some df \<and> length df < 2)"
      by (cases r) (auto simp: not_le)
    from try_body_no_frame [OF Pair this] f that [of st] show thesis
      by (simp add: check_spike_and_death_candle_any_def)
  next
    case True
    then obtain df where df: "r = Some df" "2 \<le> length df" by blast
    note body = try_body_on_frame [OF Pair [unfolded df(1)] df(2)]
    show thesis
    proof (cases "fge (candle_move_pct (prev_of df)) (Fin 10)")
      case False
      with body that [of st] show thesis
        by (simp add: check_spike_and_death_candle_any_def)
    next
      case True
      show thesis
      proof (cases "spike_branch w tk (prev_of df) (current_of df) st")
        case (Raised s)
        then have "s = st" by (simp add: spike_branch_Raised)
        with body True Raised
        have "check_spike_and_death_candle_any w tk st = st\<lparr>logged := logged st @ [Error_checking tk]\<rparr>"
          by (simp add: check_spike_and_death_candle_any_def)
        with that [of st] show thesis by simp
      next
        case (Returned s)
        then have s: "s = reached (spike_branch w tk (prev_of df) (current_of df) st)" by simp
        show thesis
        proof (cases "death_branch w tk (prev_of df) (current_of df) s")
          case (Raised s')
          then have "s' = s" by (simp add: death_branch_Raised)
          with body True Returned Raised
          have "check_spike_and_death_candle_any w tk st = s\<lparr>logged := logged s @ [Error_checking tk]\<rparr>"
            by (simp add: check_spike_and_death_candle_any_def)
          moreover have "\<exists>p c. s = reached (spike_branch w tk p c st)" using s by blast
          ultimately show thesis using that [of s] by simp
        next
          case Returned': (Returned s')
          with body True Returned
          have "check_spike_and_death_candle_any w tk st = s'"
            by (simp add: check_spike_and_death_candle_any_def)
          moreover have "\<exists>p c. s' = reached (death_branch w tk p c (reached (spike_branch w tk p c st)))"
            using Returned' Returned by (metis reached.simps(1))
          ultimately show thesis using that [of s'] by simp
        qed
      qed
    qed
  qed
qed

section \<open>Keys of the posted alerts\<close>

lemma keys_logged [simp]:
  "spike_keys (st\<lparr>logged := l\<rparr>) = spike_keys st"
  "entry_keys (st\<lparr>logged := l\<rparr>) = entry_keys st"
  by (simp_all add: spike_keys_def entry_keys_def alerts_def)

lemma keys_posted_eq:
  "posted st' = posted st \<Longrightarrow> spike_keys st' = spike_keys st"
  "posted st' = posted st \<Longrightarrow> entry_keys st' = entry_keys st"
  by (simp_all add: spike_keys_def entry_keys_def alerts_def)

lemma spike_branch_keys:
  "spike_keys (reached (spike_branch w tk p c st)) =
     spike_keys st @ (if alerted_spikes st (make_key tk (str_time (index_time p))) = None \<and>
                         index_time p \<noteq> NaT
                      then [make_key tk (str_time (index_time p))] else [])"
  "entry_keys (reached (spike_branch w tk p c st)) = entry_keys st"
  by (simp_all add: spike_keys_def entry_keys_def alerts_def spike_branch_posted
      is_spike_def is_entry_def alert_key_def)

lemma death_branch_keys:
  "spike_keys (reached (death_branch w tk p c st)) = spike_keys st"
  "entry_keys (reached (death_branch w tk p c st)) =
     entry_keys st @ (if flt (Close c) (Open c) \<and>
                         alerted_deaths st (make_key tk (str_time (index_time c))) = None \<and>
                         index_time c \<noteq> NaT
                      then [make_key tk (str_time (index_time c))] else [])"
  by (simp_all add: spike_keys_def entry_keys_def alerts_def death_branch_posted
      is_spike_def is_entry_def alert_key_def)

lemma spike_branch_inv: "dedup_inv st \<Longrightarrow> dedup_inv (reached (spike_branch w tk p c st))"
  unfolding dedup_inv_def spike_branch_keys spike_branch_spikes spike_branch_deaths
  by (auto simp: dom_def)

lemma death_branch_inv: "dedup_inv st \<Longrightarrow> dedup_inv (reached (death_branch w tk p c st))"
  unfolding dedup_inv_def death_branch_keys death_branch_spikes death_branch_deaths
  by (auto simp: dom_def)

lemma dedup_inv_same:
  assumes "alerted_spikes a = alerted_spikes b" "alerted_deaths a = alerted_deaths b"
    "posted a = posted b"
  shows "dedup_inv a = dedup_inv b"
  using assms keys_posted_eq [of a b] by (simp add: dedup_inv_def)

lemma check_any_inv:
  assumes "dedup_inv st"
  shows "dedup_inv (check_spike_and_death_candle_any w tk st)"
proof -
  obtain s where s: "s = st \<or>
     (\<exists>p c. s = reached (spike_branch w tk p c st)) \<or>
     (\<exists>p c. s = reached (death_branch w tk p c (reached (spike_branch w tk p c st))))"
    and same: "alerted_spikes (check_spike_and_death_candle_any w tk st) = alerted_spikes s"
    "alerted_deaths (check_spike_and_death_candle_any w tk st) = alerted_deaths s"
    "posted (check_spike_and_death_candle_any w tk st) = posted s"
    by (rule check_any_cases)
  from s assms have "dedup_inv s"
    by (auto simp: spike_branch_inv death_branch_inv)
  with dedup_inv_same [OF same] show ?thesis by simp
qed

lemma for_stocks_inv: "dedup_inv st \<Longrightarrow> dedup_inv (for_stocks e i stocks st)"
  by (induction stocks arbitrary: i st) (simp_all add: check_any_inv)

lemma dedup_inv_logged [simp]: "dedup_inv (st\<lparr>logged := l\<rparr>) = dedup_inv st"
  by (simp add: dedup_inv_def)

lemma cycle_inv: "dedup_inv st \<Longrightarrow> dedup_inv (cycle stocks c st)"
  by (simp add: cycle_def for_stocks_inv)

lemma cycles_inv: "dedup_inv st \<Longrightarrow> dedup_inv (cycles stocks cs st)"
  by (induction cs arbitrary: st) (simp_all add: cycle_inv)

lemma initial_inv: "dedup_inv initial_state"
  by (simp add: dedup_inv_def initial_state_def spike_keys_def entry_keys_def alerts_def)

lemma main_loop_inv: "dedup_inv (main_loop url stocks cs)"
  using initial_inv by (simp add: main_loop_def Let_def cycles_inv)

lemma count_distinct: "distinct xs \<Longrightarrow> length (filter (\<lambda>x. x = k) xs) \<le> Suc 0"
  by (induction xs) (auto simp: filter_empty_conv)

lemma spike_count_keys: "spike_count k st = length (filter (\<lambda>x. x = k) (spike_keys st))"
  by (simp add: spike_count_def spike_keys_def filter_map comp_def conj_commute)

lemma entry_count_keys: "entry_count k st = length (filter (\<lambda>x. x = k) (entry_keys st))"
  by (simp add: entry_count_def entry_keys_def filter_map comp_def conj_commute)

section \<open>Recorded keys\<close>

lemma counts_posted_eq:
  "posted st' = posted st \<Longrightarrow> spike_count k st' = spike_count k st"
  "posted st' = posted st \<Longrightarrow> entry_count k st' = entry_count k st"
  by (simp_all add: spike_count_def entry_count_def alerts_def)

lemma counts_logged [simp]:
  "spike_count k (st\<lparr>logged := l\<rparr>) = spike_count k st"
  "entry_count k (st\<lparr>logged := l\<rparr>) = entry_count k st"
  by (simp_all add: spike_count_def entry_count_def alerts_def)

text \<open>A key that is in a dictionary stays there and is never posted under again.\<close>

lemma branches_recorded_spike:
  assumes "alerted_spikes st k \<noteq> None"
  shows "alerted_spikes (reached (spike_branch w tk p c st)) k \<noteq> None"
    "spike_count k (reached (spike_branch w tk p c st)) = spike_count k st"
    "alerted_spikes (reached (death_branch w tk p c (reached (spike_branch w tk p c st)))) k
       \<noteq> None"
    "spike_count k (reached (death_branch w tk p c (reached (spike_branch w tk p c st)))) =
       spike_count k st"
  using assms
  by (auto simp: spike_count_keys spike_branch_keys death_branch_keys branch_fields)

lemma branches_recorded_entry:
  assumes "alerted_deaths st k \<noteq> None"
  shows "alerted_deaths (reached (spike_branch w tk p c st)) k \<noteq> None"
    "entry_count k (reached (spike_branch w tk p c st)) = entry_count k st"
    "alerted_deaths (reached (death_branch w tk p c (reached (spike_branch w tk p c st)))) k
       \<noteq> None"
    "entry_count k (reached (death_branch w tk p c (reached (spike_branch w tk p c st)))) =
       entry_count k st"
  using assms
  by (auto simp: entry_count_keys spike_branch_keys death_branch_keys branch_fields)

lemma check_any_recorded_spike:
  assumes "alerted_spikes st k \<noteq> None"
  shows "alerted_spikes (check_spike_and_death_candle_any w tk st) k \<noteq> None \<and>
    spike_count k (check_spike_and_death_candle_any w tk st) = spike_count k st"
proof -
  obtain s where s: "s = st \<or>
     (\<exists>p c. s = reached (spike_branch w tk p c st)) \<or>
     (\<exists>p c. s = reached (death_branch w tk p c (reached (spike_branch w tk p c st))))"
    and same: "alerted_spikes (check_spike_and_death_candle_any w tk st) = alerted_spikes s"
    "posted (check_spike_and_death_candle_any w tk st) = posted s"
    by (rule check_any_cases)
  from s branches_recorded_spike [OF assms, of w tk] assms
  have "alerted_spikes s k \<noteq> None \<and> spike_count k s = spike_count k st"
    by blast
  with same counts_posted_eq(1) [OF same(2), of k] show ?thesis by simp
qed

lemma check_any_recorded_entry:
  assumes "alerted_deaths st k \<noteq> None"
  shows "alerted_deaths (check_spike_and_death_candle_any w tk st) k \<noteq> None \<and>
    entry_count k (check_spike_and_death_candle_any w tk st) = entry_count k st"
proof -
  obtain s where s: "s = st \<or>
     (\<exists>p c. s = reached (spike_branch w tk p c st)) \<or>
     (\<exists>p c. s = reached (death_branch w tk p c (reached (spike_branch w tk p c st))))"
    and same: "alerted_deaths (check_spike_and_death_candle_any w tk st) = alerted_deaths s"
    "posted (check_spike_and_death_candle_any w tk st) = posted s"
    by (rule check_any_cases)
  from s branches_recorded_entry [OF assms, of w tk] assms
  have "alerted_deaths s k \<noteq> None \<and> entry_count k s = entry_count k st"
    by blast
  with same counts_posted_eq(2) [OF same(2), of k] show ?thesis by simp
qed

lemma for_stocks_recorded_spike:
  "alerted_spikes st k \<noteq> None \<Longrightarrow>
     alerted_spikes (for_stocks e i stocks st) k \<noteq> None \<and>
     spike_count k (for_stocks e i stocks st) = spike_count k st"
proof (induction stocks arbitrary: i st)
  case Nil
  then show ?case by simp
next
  case (Cons s ss)
  from check_any_recorded_spike [OF Cons.prems, of "e i" s]
    Cons.IH [of "check_spike_and_death_candle_any (e i) s st" "Suc i"]
  show ?case by simp
qed

lemma for_stocks_recorded_entry:
  "alerted_deaths st k \<noteq> None \<Longrightarrow>
     alerted_deaths (for_stocks e i stocks st) k \<noteq> None \<and>
     entry_count k (for_stocks e i stocks st) = entry_count k st"
proof (induction stocks arbitrary: i st)
  case Nil
  then show ?case by simp
next
  case (Cons s ss)
  from check_any_recorded_entry [OF Cons.prems, of "e i" s]
    Cons.IH [of "check_spike_and_death_candle_any (e i) s st" "Suc i"]
  show ?case by simp
qed

lemma cycle_recorded_spike:
  assumes "alerted_spikes st k \<noteq> None"
  shows "alerted_spikes (cycle stocks c st) k \<noteq> None \<and>
     spike_count k (cycle stocks c st) = spike_count k st"
  using assms
    for_stocks_recorded_spike [of "st\<lparr>logged := logged st @ [Info_market_open (length stocks)]\<rparr>"
      k "env c" 0 stocks]
  by (simp add: cycle_def)

lemma cycle_recorded_entry:
  assumes "alerted_deaths st k \<noteq> None"
  shows "alerted_deaths (cycle stocks c st) k \<noteq> None \<and>
     entry_count k (cycle stocks c st) = entry_count k st"
  using assms
    for_stocks_recorded_entry [of "st\<lparr>logged := logged st @ [Info_market_open (length stocks)]\<rparr>"
      k "env c" 0 stocks]
  by (simp add: cycle_def)

lemma cycles_recorded_spike:
  "alerted_spikes st k \<noteq> None \<Longrightarrow>
     alerted_spikes (cycles stocks cs st) k \<noteq> None \<and>
     spike_count k (cycles stocks cs st) = spike_count k st"
proof (induction cs arbitrary: st)
  case Nil
  then show ?case by simp
next
  case (Cons c cs)
  from cycle_recorded_spike [OF Cons.prems, of stocks c] Cons.IH [of "cycle stocks c st"]
  show ?case by simp
qed

lemma cycles_recorded_entry:
  "alerted_deaths st k \<noteq> None \<Longrightarrow>
     alerted_deaths (cycles stocks cs st) k \<noteq> None \<and>
     entry_count k (cycles stocks cs st) = entry_count k st"
proof (induction cs arbitrary: st)
  case Nil
  then show ?case by simp
next
  case (Cons c cs)
  from cycle_recorded_entry [OF Cons.prems, of stocks c] Cons.IH [of "cycle stocks c st"]
  show ?case by simp
qed

section \<open>Frames with timestamps\<close>

lemma stamped_fields [simp]:
  "index_time (stamped_candle c) = Stamp (index_time c)"
  "Open (stamped_candle c) = Open c" "High (stamped_candle c) = High c"
  "Low (stamped_candle c) = Low c" "Close (stamped_candle c) = Close c"
  "Volume (stamped_candle c) = Volume c"
  "volume_avg_20 (stamped_candle c) = volume_avg_20 c"
  "volume_ratio (stamped_candle c) = volume_ratio c"
  "candle_move_pct (stamped_candle c) = candle_move_pct c"
  "Volume (stamped_bar b) = Volume b"
  "spike_post (stamped w) = spike_post w" "entry_post (stamped w) = entry_post w"
  "download (stamped w) = stamped_download (download w)"
  by (simp_all add: stamped_candle_def stamped_bar_def stamped_def)

lemma add_columns_stamped:
  "add_columns (stamped_bar b) avg = stamped_candle (add_columns b avg)"
  by (simp add: add_columns_def stamped_bar_def stamped_candle_def)

lemma derive_stamped: "derive (map stamped_bar df) = map stamped_candle (derive df)"
  by (simp add: derive_def zip_map1 comp_def case_prod_unfold add_columns_stamped)

lemma tail_map: "tail n (map f df) = map f (tail n df)"
  by (simp add: tail_def drop_map)

lemma get_5min_candles_stamped:
  "get_5min_candles (stamped_download d) tk n st =
     (map_option (map stamped_candle) (fst (get_5min_candles d tk n st)),
      snd (get_5min_candles d tk n st))"
  by (cases d) (simp_all add: get_5min_candles_def derive_stamped tail_map)

lemma rows_stamped:
  assumes "2 \<le> length df"
  shows "prev_of (map stamped_candle df) = stamped_candle (prev_of df)"
    "current_of (map stamped_candle df) = stamped_candle (current_of df)"
  using assms by (simp_all add: prev_of_def current_of_def)

lemma spike_effect_deaths:
  "alerted_deaths (spike_effect w tk p c st) = alerted_deaths st"
  by (simp add: spike_effect_def spike_branch_deaths)

lemma spike_effect_spikes:
  "alerted_spikes (spike_effect w tk p c st) =
     (if alerted_spikes st (make_key tk (index_time p)) = None
      then (alerted_spikes st)(make_key tk (index_time p) \<mapsto> index_time c)
      else alerted_spikes st)"
  by (simp add: spike_effect_def spike_branch_spikes)

lemma spike_effect_posted:
  "posted (spike_effect w tk p c st) =
     posted st @
     (if alerted_spikes st (make_key tk (index_time p)) = None
      then [(\<lparr>title = Spike_Alert tk,
               description = Spike_Message tk (candle_move_pct p) (volume_ratio p) (Close p)
                 (index_time p),
               color = 16711680\<rparr>, spike_post w)]
      else [])"
  by (simp add: spike_effect_def spike_branch_posted)

lemma death_effect_spikes:
  "alerted_spikes (death_effect w tk p c st) = alerted_spikes st"
  by (simp add: death_effect_def death_branch_spikes)

lemma death_effect_deaths:
  "alerted_deaths (death_effect w tk p c st) =
     (if flt (Close c) (Open c) \<and> alerted_deaths st (make_key tk (index_time c)) = None
      then (alerted_deaths st)(make_key tk (index_time c) \<mapsto> index_time c)
      else alerted_deaths st)"
  by (simp add: death_effect_def death_branch_deaths)

lemma death_effect_posted:
  "posted (death_effect w tk p c st) =
     posted st @
     (if flt (Close c) (Open c) \<and> alerted_deaths st (make_key tk (index_time c)) = None
      then [(\<lparr>title = Entry_Signal tk,
               description = Entry_Message tk (Open c) (High p)
                 (fmul (fdiv (fsub (High p) (Close c)) (Close c)) (Fin 100)) (index_time c),
               color = 65280\<rparr>, entry_post w)]
      else [])"
  by (simp add: death_effect_def death_branch_posted)

lemmas effect_fields = spike_effect_deaths spike_effect_spikes spike_effect_posted
  death_effect_spikes death_effect_deaths death_effect_posted

lemma effect_logged:
  "logged (spike_effect w tk p c st) =
     logged st @ (if alerted_spikes st (make_key tk (index_time p)) = None
       then [if spike_post w = Delivered then Info_alert_sent (Spike_Alert tk)
             else Error_send_failed (spike_post w)] else [])"
  "logged (death_effect w tk p c st) =
     logged st @ (if flt (Close c) (Open c) \<and>
                     alerted_deaths st (make_key tk (index_time c)) = None
       then [if entry_post w = Delivered then Info_alert_sent (Entry_Signal tk)
             else Error_send_failed (entry_post w)] else [])"
  by (simp_all add: spike_effect_def death_effect_def branch_logged)

text \<open>On a frame with timestamps neither branch raises.\<close>

lemma stamped_Returned:
  "spike_branch (stamped w) tk (stamped_candle p) (stamped_candle c) st =
     Returned (spike_effect w tk p c st)"
  "death_branch (stamped w) tk (stamped_candle p) (stamped_candle c) st =
     Returned (death_effect w tk p c st)"
proof -
  show "spike_branch (stamped w) tk (stamped_candle p) (stamped_candle c) st =
     Returned (spike_effect w tk p c st)"
    unfolding spike_effect_def
    by (cases "spike_branch (stamped w) tk (stamped_candle p) (stamped_candle c) st")
      (simp_all add: spike_branch_Raised)
  show "death_branch (stamped w) tk (stamped_candle p) (stamped_candle c) st =
     Returned (death_effect w tk p c st)"
    unfolding death_effect_def
    by (cases "death_branch (stamped w) tk (stamped_candle p) (stamped_candle c) st")
      (simp_all add: death_branch_Raised)
qed

lemma check_on_frame:
  assumes "get_5min_candles (download w) tk 100 st = (Some df, st')" "2 \<le> length df"
  shows "check_spike_and_death_candle w tk st =
     (if fge (candle_move_pct (prev_of df)) (Fin 10)
      then death_effect w tk (prev_of df) (current_of df)
             (spike_effect w tk (prev_of df) (current_of df) st)
      else st)"
proof -
  have g: "get_5min_candles (download (stamped w)) tk 100 st =
      (Some (map stamped_candle df), st')"
    using assms(1) by (simp add: get_5min_candles_stamped)
  have len: "2 \<le> length (map stamped_candle df)" using assms(2) by simp
  show ?thesis
    unfolding check_spike_and_death_candle_def check_spike_and_death_candle_any_def
      try_body_on_frame [OF g len] rows_stamped [OF assms(2)]
    by (simp add: stamped_Returned)
qed

lemma check_no_frame:
  assumes "get_5min_candles (download w) tk 100 st = (r, st')"
    "r = None \<or> (\<exists>df. r = Some df \<and> length df < 2)"
  shows "check_spike_and_death_candle w tk st = st'"
proof -
  have g: "get_5min_candles (download (stamped w)) tk 100 st =
      (map_option (map stamped_candle) r, st')"
    using assms(1) by (simp add: get_5min_candles_stamped)
  have "map_option (map stamped_candle) r = None \<or>
      (\<exists>df. map_option (map stamped_candle) r = Some df \<and> length df < 2)"
    using assms(2) by auto
  from try_body_no_frame [OF g this] show ?thesis
    by (simp add: check_spike_and_death_candle_def check_spike_and_death_candle_any_def)
qed

text \<open>The ways an evaluation of a frame with timestamps can go.\<close>

lemma check_cases:
  obtains (skip) st' where "check_spike_and_death_candle w tk st = st'"
      "alerted_spikes st' = alerted_spikes st" "alerted_deaths st' = alerted_deaths st"
      "posted st' = posted st"
  | (branches) p c where "check_spike_and_death_candle w tk st =
        death_effect w tk p c (spike_effect w tk p c st)"
proof (cases "get_5min_candles (download w) tk 100 st")
  case (Pair r st')
  have f: "alerted_spikes st' = alerted_spikes st" "alerted_deaths st' = alerted_deaths st"
      "posted st' = posted st"
    using get_5min_candles_fields [of "download w" tk 100 st] Pair by simp_all
  show thesis
  proof (cases "\<exists>df. r = Some df \<and> 2 \<le> length df")
    case True
    then obtain df where df: "r = Some df" "2 \<le> length df" by blast
    show thesis
    proof (cases "fge (candle_move_pct (prev_of df)) (Fin 10)")
      case True
      with check_on_frame [OF Pair [unfolded df(1)] df(2)] branches show thesis by simp
    next
      case False
      with check_on_frame [OF Pair [unfolded df(1)] df(2)] skip [of st] show thesis by simp
    qed
  next
    case False
    then have "r = None \<or> (\<exists>df. r = Some df \<and> length df < 2)"
      by (cases r) (auto simp: not_le)
    from check_no_frame [OF Pair this] f skip show thesis by simp
  qed
qed

section \<open>Deduplication\<close>

lemma get_5min_candles_frame:
  "fst (get_5min_candles d tk n st) =
     (case d of DownloadRaises \<Rightarrow> None
      | Frame df \<Rightarrow> if df = [] then None else Some (tail n (derive df)))"
  by (simp add: get_5min_candles_def split: download_result.splits)

lemma check_again:
  assumes "download w' = download w"
  shows "posted (check_spike_and_death_candle w' tk (check_spike_and_death_candle w tk st)) =
           posted (check_spike_and_death_candle w tk st)
       \<and> alerted_spikes (check_spike_and_death_candle w' tk (check_spike_and_death_candle w tk st)) =
           alerted_spikes (check_spike_and_death_candle w tk st)
       \<and> alerted_deaths (check_spike_and_death_candle w' tk (check_spike_and_death_candle w tk st)) =
           alerted_deaths (check_spike_and_death_candle w tk st)"
proof (cases "get_5min_candles (download w) tk 100 st")
  case (Pair r st1)
  obtain r' st2 where second:
    "get_5min_candles (download w') tk 100 (check_spike_and_death_candle w tk st) = (r', st2)"
    by (cases "get_5min_candles (download w') tk 100 (check_spike_and_death_candle w tk st)")
  have r': "r' = r"
    using get_5min_candles_frame [of "download w" tk 100 st]
      get_5min_candles_frame [of "download w'" tk 100 "check_spike_and_death_candle w tk st"]
      Pair second assms by simp
  have f2: "alerted_spikes st2 = alerted_spikes (check_spike_and_death_candle w tk st)"
    "alerted_deaths st2 = alerted_deaths (check_spike_and_death_candle w tk st)"
    "posted st2 = posted (check_spike_and_death_candle w tk st)"
    using get_5min_candles_fields [of "download w'" tk 100 "check_spike_and_death_candle w tk st"]
      second by simp_all
  show ?thesis
  proof (cases "\<exists>df. r = Some df \<and> 2 \<le> length df")
    case True
    then obtain df where df: "r = Some df" "2 \<le> length df" by blast
    show ?thesis
      unfolding check_on_frame [OF second [unfolded r' df(1)] df(2)]
      unfolding check_on_frame [OF Pair [unfolded df(1)] df(2)]
      by (auto simp: effect_fields)
  next
    case False
    then have "r = None \<or> (\<exists>df. r = Some df \<and> length df < 2)"
      by (cases r) (auto simp: not_le)
    from check_no_frame [OF second [unfolded r'] this] f2 show ?thesis by simp
  qed
qed

text \<open>
  C1. Over the whole life of the process (any webhook setting, any list of stocks,
  any cycles run so far, whatever the clock, the provider and the webhook did), at
  most one spike alert and at most one entry alert was posted under any one key; and
  an evaluation that follows another on the same downloaded frame posts nothing and
  leaves both dictionaries as they are, whatever the webhook does.
\<close>

theorem alerts_at_most_once:
  "spike_count k (main_loop url stocks cs) \<le> 1 \<and>
   entry_count k (main_loop url stocks cs) \<le> 1 \<and>
   posted (check_spike_and_death_candle (w\<lparr>spike_post := a, entry_post := b\<rparr>) tk
      (check_spike_and_death_candle w tk st)) = posted (check_spike_and_death_candle w tk st) \<and>
   alerted_spikes (check_spike_and_death_candle (w\<lparr>spike_post := a, entry_post := b\<rparr>) tk
      (check_spike_and_death_candle w tk st)) =
     alerted_spikes (check_spike_and_death_candle w tk st) \<and>
   alerted_deaths (check_spike_and_death_candle (w\<lparr>spike_post := a, entry_post := b\<rparr>) tk
      (check_spike_and_death_candle w tk st)) =
     alerted_deaths (check_spike_and_death_candle w tk st)"
proof -
  have inv: "dedup_inv (main_loop url stocks cs)" by (rule main_loop_inv)
  have 1: "spike_count k (main_loop url stocks cs) \<le> 1"
    using inv count_distinct [of "spike_keys (main_loop url stocks cs)" k]
    by (simp add: spike_count_keys dedup_inv_def)
  have 2: "entry_count k (main_loop url stocks cs) \<le> 1"
    using inv count_distinct [of "entry_keys (main_loop url stocks cs)" k]
    by (simp add: entry_count_keys dedup_inv_def)
  have "download (w\<lparr>spike_post := a, entry_post := b\<rparr>) = download w" by simp
  from check_again [OF this, of tk st] 1 2 show ?thesis by blast
qed

section \<open>Pattern detector\<close>

lemma emitted_append:
  "posted st' = posted st @ xs \<Longrightarrow> emitted st st' = map fst xs"
  by (simp add: emitted_def alerts_def)

lemma emitted_check_frame:
  assumes "get_5min_candles (download w) tk 100 st = (Some df, st')" "2 \<le> length df"
  shows "emitted st (check_spike_and_death_candle w tk st) =
    (if fge (candle_move_pct (prev_of df)) (Fin 10)
     then (if alerted_spikes st (make_key tk (index_time (prev_of df))) = None
           then [\<lparr>title = Spike_Alert tk,
                   description = Spike_Message tk (candle_move_pct (prev_of df))
                     (volume_ratio (prev_of df)) (Close (prev_of df)) (index_time (prev_of df)),
                   color = 16711680\<rparr>]
           else []) @
          (if flt (Close (current_of df)) (Open (current_of df)) \<and>
              alerted_deaths st (make_key tk (index_time (current_of df))) = None
           then [\<lparr>title = Entry_Signal tk,
                   description = Entry_Message tk (Open (current_of df)) (High (prev_of df))
                     (fmul (fdiv (fsub (High (prev_of df)) (Close (current_of df)))
                        (Close (current_of df))) (Fin 100))
                     (index_time (current_of df)),
                   color = 65280\<rparr>]
           else [])
     else [])"
  unfolding check_on_frame [OF assms]
  by (simp add: emitted_def alerts_def effect_fields)

lemma derive_two:
  "derive [a, b] = [add_columns a NaN, add_columns b NaN]"
  by (simp add: derive_def rolling_mean_def upt_rec)

lemma frame_world_two:
  "get_5min_candles (download (frame_world [a, b] r)) tk 100 st =
     (Some [add_columns a NaN, add_columns b NaN], st)"
  by (simp add: get_5min_candles_def frame_world_def derive_two tail_def)

lemma spike_world_frame:
  "get_5min_candles (download spike_world) tk 100 st =
     (Some [add_columns spike_bar NaN, add_columns red_bar NaN], st)"
  by (simp add: spike_world_def frame_world_two)

lemmas example_simps = prev_of_def current_of_def add_columns_def spike_bar_def red_bar_def
  exact_bar_def near_bar_def fsub_def initial_state_def

text \<open>
  C2. When the fetch returns a frame of at least two candles, the evaluation posts an
  entry signal exactly when the move of the previous candle is at least 10, the
  current candle closes below its open, and the death key of the current candle is
  not yet in the dictionary. The state of the spike dictionary plays no part, and
  without the spike threshold on the previous candle no entry signal is posted.
\<close>

theorem entry_signal_iff:
  assumes "get_5min_candles (download w) ticker 100 st = (Some df, st')" "2 \<le> length df"
  shows "(filter is_entry (emitted st (check_spike_and_death_candle w ticker st)) \<noteq> []) =
     (fge (candle_move_pct (prev_of df)) (Fin 10) \<and>
      flt (Close (current_of df)) (Open (current_of df)) \<and>
      alerted_deaths st (make_key ticker (index_time (current_of df))) = None)"
  unfolding emitted_check_frame [OF assms]
  by (simp add: is_entry_def)

text \<open>A 15 percent candle followed by a red candle, from the initial state.\<close>

theorem entry_signal_iff_witness:
  "filter is_entry (emitted initial_state
     (check_spike_and_death_candle spike_world ''TSLA'' initial_state)) \<noteq> []"
proof -
  have len: "2 \<le> length [add_columns spike_bar NaN, add_columns red_bar NaN]" by simp
  show ?thesis
    using entry_signal_iff [OF spike_world_frame [of "''TSLA''" initial_state] len]
    by (simp add: prev_of_def current_of_def add_columns_def spike_bar_def red_bar_def
        fsub_def initial_state_def)
qed


text \<open>
  C3. When the fetch returns a frame of at least two candles and the spike key of the
  previous candle is not yet in the dictionary, a spike alert is posted exactly when
  the move of the previous candle is at least 10: it is posted at a move of exactly
  10 and not posted at 9.999.
\<close>

theorem spike_threshold_inclusive:
  assumes "get_5min_candles (download w) ticker 100 st = (Some df, st')" "2 \<le> length df"
    "alerted_spikes st (make_key ticker (index_time (prev_of df))) = None"
  shows "(filter is_spike (emitted st (check_spike_and_death_candle w ticker st)) \<noteq> []) =
           fge (candle_move_pct (prev_of df)) (Fin 10)
     \<and> (candle_move_pct (prev_of df) = Fin 10 \<longrightarrow>
           filter is_spike (emitted st (check_spike_and_death_candle w ticker st)) \<noteq> [])
     \<and> (candle_move_pct (prev_of df) = Fin (9999 / 1000) \<longrightarrow>
           filter is_spike (emitted st (check_spike_and_death_candle w ticker st)) = [])"
  unfolding emitted_check_frame [OF assms(1,2)] using assms(3)
  by (simp add: is_spike_def)

text \<open>
  A candle from 10 to 11 moves by exactly 10 percent and is alerted; a candle from
  100000 to 109999 moves by 9.999 percent and is not.
\<close>

theorem spike_threshold_inclusive_witness:
  "filter is_spike (emitted initial_state (check_spike_and_death_candle
      (frame_world [exact_bar, red_bar] Delivered) ''TSLA'' initial_state)) \<noteq> [] \<and>
   filter is_spike (emitted initial_state (check_spike_and_death_candle
      (frame_world [near_bar, red_bar] Delivered) ''TSLA'' initial_state)) = []"
proof -
  have len: "2 \<le> length [add_columns b NaN, add_columns red_bar NaN]" for b by simp
  have fresh: "alerted_spikes initial_state (make_key ''TSLA''
      (index_time (prev_of [add_columns b NaN, add_columns red_bar NaN]))) = None" for b
    by (simp add: initial_state_def)
  show ?thesis
    using spike_threshold_inclusive [OF frame_world_two [of exact_bar red_bar Delivered
          "''TSLA''" initial_state] len fresh]
      spike_threshold_inclusive [OF frame_world_two [of near_bar red_bar Delivered
          "''TSLA''" initial_state] len fresh]
    by (simp add: example_simps)
qed

text \<open>
  C4. Every entry signal that an evaluation posts carries the open of the current
  candle as entry, the high of the previous candle as stop, and
  (high of previous - close of current) / close of current * 100 as risk.
\<close>

theorem entry_signal_contents:
  assumes "get_5min_candles (download w) ticker 100 st = (Some df, st')" "2 \<le> length df"
    "a \<in> set (emitted st (check_spike_and_death_candle w ticker st))" "is_entry a"
  shows "description a =
     Entry_Message ticker (Open (current_of df)) (High (prev_of df))
       (fmul (fdiv (fsub (High (prev_of df)) (Close (current_of df))) (Close (current_of df)))
          (Fin 100))
       (index_time (current_of df))"
  using assms(3,4) unfolding emitted_check_frame [OF assms(1,2)]
  by (auto simp: is_entry_def split: if_splits)

text \<open>
  The example of the specification: a previous candle that moves by 15 percent with
  high 12, a current candle that opens at 10 and closes at 9.50. The entry is 10, the
  stop 12 and the risk 500 / 19, which is 26.32 to two decimals.
\<close>

theorem entry_signal_contents_witness:
  "candle_move_pct (prev_of [add_columns spike_bar NaN, add_columns red_bar NaN]) = Fin 15 \<and>
   description (emitted initial_state
      (check_spike_and_death_candle spike_world ''TSLA'' initial_state) ! 1) =
     Entry_Message ''TSLA'' (Fin 10) (Fin 12) (Fin (500 / 19)) ''2024-01-03 10:05:00-05:00'' \<and>
   (26315 / 1000 :: real) \<le> 500 / 19 \<and> (500 / 19 :: real) < 26325 / 1000"
proof -
  have len: "2 \<le> length [add_columns spike_bar NaN, add_columns red_bar NaN]" by simp
  have em: "emitted initial_state (check_spike_and_death_candle spike_world ''TSLA'' initial_state)
      ! 1 \<in> set (emitted initial_state
        (check_spike_and_death_candle spike_world ''TSLA'' initial_state))"
    unfolding emitted_check_frame [OF spike_world_frame len]
    by (simp add: example_simps)
  have en: "is_entry (emitted initial_state
      (check_spike_and_death_candle spike_world ''TSLA'' initial_state) ! 1)"
    unfolding emitted_check_frame [OF spike_world_frame len]
    by (simp add: example_simps is_entry_def)
  show ?thesis
    using entry_signal_contents [OF spike_world_frame len em en]
    by (simp add: example_simps)
qed

text \<open>
  C6. When the fetch returns nothing (the download raised or the frame was empty) or
  a frame of fewer than two candles, the evaluation posts no alert and leaves both
  dictionaries as they were.
\<close>

theorem short_window_no_op:
  assumes "get_5min_candles (download w) ticker 100 st = (r, st')"
    "r = None \<or> (\<exists>df. r = Some df \<and> length df < 2)"
  shows "emitted st (check_spike_and_death_candle w ticker st) = [] \<and>
    posted (check_spike_and_death_candle w ticker st) = posted st \<and>
    alerted_spikes (check_spike_and_death_candle w ticker st) = alerted_spikes st \<and>
    alerted_deaths (check_spike_and_death_candle w ticker st) = alerted_deaths st"
  using get_5min_candles_fields [of "download w" ticker 100 st] assms(1)
  unfolding check_no_frame [OF assms]
  by (simp add: emitted_def alerts_def)

lemma derive_one: "derive [a] = [add_columns a NaN]"
  by (simp add: derive_def rolling_mean_def upt_rec)

text \<open>
  A download that raises, an empty frame, and a frame of a single 15 percent candle.
\<close>

theorem short_window_no_op_witness:
  "emitted initial_state (check_spike_and_death_candle failing_fetch ''TSLA'' initial_state) = [] \<and>
   emitted initial_state
     (check_spike_and_death_candle (frame_world [] Delivered) ''TSLA'' initial_state) = [] \<and>
   emitted initial_state
     (check_spike_and_death_candle (frame_world [spike_bar] Delivered) ''TSLA'' initial_state) = [] \<and>
   alerted_spikes
     (check_spike_and_death_candle (frame_world [spike_bar] Delivered) ''TSLA'' initial_state) =
     Map.empty"
proof -
  have 1: "get_5min_candles (download failing_fetch) ''TSLA'' 100 initial_state =
      (None, initial_state\<lparr>logged := logged initial_state @ [Error_fetching ''TSLA'']\<rparr>)"
    by (simp add: get_5min_candles_def failing_fetch_def)
  have 2: "get_5min_candles (download (frame_world [] Delivered)) ''TSLA'' 100 initial_state =
      (None, initial_state)"
    by (simp add: get_5min_candles_def frame_world_def)
  have 3: "get_5min_candles (download (frame_world [spike_bar] Delivered)) ''TSLA'' 100
      initial_state = (Some [add_columns spike_bar NaN], initial_state)"
    by (simp add: get_5min_candles_def frame_world_def derive_one tail_def)
  have a: "None = None \<or> (\<exists>df. (None :: timestamp candle list option) = Some df \<and> length df < 2)"
    by simp
  have b: "Some [add_columns spike_bar NaN] = None \<or>
      (\<exists>df. Some [add_columns spike_bar NaN] = Some df \<and> length df < 2)"
    by simp
  show ?thesis
    using short_window_no_op [OF 1 a] short_window_no_op [OF 2 a] short_window_no_op [OF 3 b]
    by (simp add: initial_state_def)
qed

lemmas run_simps = check_spike_and_death_candle_def check_spike_and_death_candle_any_def
  try_body_def get_5min_candles_def check_frame_def spike_branch_def death_branch_def
  send_discord_alert_def frame_world_def spike_world_def failing_fetch_def stamped_def
  stamped_bar_def derive_two tail_def make_key_def Let_def

section \<open>Failure isolation\<close>

lemma for_stocks_append:
  "for_stocks e i (xs @ ys) st = for_stocks e (i + length xs) ys (for_stocks e i xs st)"
  by (induction xs arbitrary: i st) simp_all

lemma check_any_fetch_raises:
  "download w = DownloadRaises \<Longrightarrow>
     check_spike_and_death_candle_any w tk st = st\<lparr>logged := logged st @ [Error_fetching tk]\<rparr>"
  by (simp add: check_spike_and_death_candle_any_def try_body_def get_5min_candles_def)

lemma check_any_raised:
  "try_body w tk st = Raised s \<Longrightarrow>
     check_spike_and_death_candle_any w tk st = s\<lparr>logged := logged s @ [Error_checking tk]\<rparr>"
  by (simp add: check_spike_and_death_candle_any_def)

text \<open>
  When the index entry of the previous candle is \<^verbatim>\<open>NaT\<close>, its move is at least 10 and
  its key is fresh, the body raises before anything is sent.
\<close>

lemma try_body_NaT:
  assumes "get_5min_candles (download w) tk 100 st = (Some df, st')" "2 \<le> length df"
    "fge (candle_move_pct (prev_of df)) (Fin 10)"
    "alerted_spikes st (make_key tk ''NaT'') = None" "index_time (prev_of df) = NaT"
  shows "try_body w tk st = Raised st"
proof -
  have "spike_branch w tk (prev_of df) (current_of df) st = Raised st"
    using assms(4,5) by (simp add: spike_branch_Raised)
  with assms(3) show ?thesis
    unfolding try_body_on_frame [OF assms(1,2)] by simp
qed

text \<open>
  C8. Within a cycle, an exception during the fetch or the evaluation of one stock
  does not leave that stock's evaluation, and the stocks after it are evaluated.
  When the download for a stock raises, \<^verbatim>\<open>get_5min_candles\<close> catches it: the stock
  leaves a line in the log and the stocks after it are evaluated from there. When
  the body of \<^verbatim>\<open>check_spike_and_death_candle\<close> raises, having reached a state \<open>s\<close>,
  the handler catches it: the stock leaves \<open>s\<close> and a line in the log, and the stocks
  after it are evaluated from there. The body does raise: on a frame of at least two
  candles in which the index entry of the previous candle is \<^verbatim>\<open>NaT\<close>, its move is at
  least 10 and its key is fresh, the evaluation posts nothing and leaves only the line
  of the handler in the log.
\<close>

theorem failure_isolated:
  "(download (e (i + length pre)) = DownloadRaises \<longrightarrow>
     for_stocks e i (pre @ stock # rest) st =
       for_stocks e (Suc (i + length pre)) rest
         ((for_stocks e i pre st)\<lparr>logged := logged (for_stocks e i pre st) @
             [Error_fetching stock]\<rparr>)) \<and>
   (try_body (e (i + length pre)) stock (for_stocks e i pre st) = Raised s \<longrightarrow>
     for_stocks e i (pre @ stock # rest) st =
       for_stocks e (Suc (i + length pre)) rest (s\<lparr>logged := logged s @ [Error_checking stock]\<rparr>)) \<and>
   (get_5min_candles (download w) stock 100 st0 = (Some df, st1) \<and> 2 \<le> length df \<and>
    fge (candle_move_pct (prev_of df)) (Fin 10) \<and>
    alerted_spikes st0 (make_key stock ''NaT'') = None \<and> index_time (prev_of df) = NaT \<longrightarrow>
     check_spike_and_death_candle_any w stock st0 =
       st0\<lparr>logged := logged st0 @ [Error_checking stock]\<rparr>)"
proof (intro conjI impI)
  assume "download (e (i + length pre)) = DownloadRaises"
  then show "for_stocks e i (pre @ stock # rest) st =
       for_stocks e (Suc (i + length pre)) rest
         ((for_stocks e i pre st)\<lparr>logged := logged (for_stocks e i pre st) @
             [Error_fetching stock]\<rparr>)"
    by (simp add: for_stocks_append check_any_fetch_raises)
next
  assume "try_body (e (i + length pre)) stock (for_stocks e i pre st) = Raised s"
  then show "for_stocks e i (pre @ stock # rest) st =
       for_stocks e (Suc (i + length pre)) rest (s\<lparr>logged := logged s @ [Error_checking stock]\<rparr>)"
    by (simp add: for_stocks_append check_any_raised)
next
  assume a: "get_5min_candles (download w) stock 100 st0 = (Some df, st1) \<and> 2 \<le> length df \<and>
    fge (candle_move_pct (prev_of df)) (Fin 10) \<and>
    alerted_spikes st0 (make_key stock ''NaT'') = None \<and> index_time (prev_of df) = NaT"
  then have "try_body w stock st0 = Raised st0"
    using try_body_NaT [of w stock st0 df st1] by blast
  then show "check_spike_and_death_candle_any w stock st0 =
       st0\<lparr>logged := logged st0 @ [Error_checking stock]\<rparr>"
    by (rule check_any_raised)
qed

text \<open>
  Four stocks: the download for the first raises, the frame of the second has lost
  its timestamps so that the body raises and nothing is posted for it, the webhook
  is unreachable for the third, and the fourth is evaluated and its alerts are
  delivered. Alone and from the initial state, the frame without
  timestamps leaves nothing but the line of the handler.
\<close>

theorem failure_isolated_witness:
  "map (\<lambda>(a, r). (title a, r))
     (posted (for_stocks mixed_env 0 [''FFIE'', ''RVSN'', ''HOOD'', ''TSLA''] initial_state)) =
     [(Spike_Alert ''HOOD'', ConnectionError), (Entry_Signal ''HOOD'', ConnectionError),
      (Spike_Alert ''TSLA'', Delivered), (Entry_Signal ''TSLA'', Delivered)] \<and>
   logged (for_stocks mixed_env 0 [''FFIE'', ''RVSN'', ''HOOD'', ''TSLA''] initial_state) =
     [Error_fetching ''FFIE'', Error_checking ''RVSN'',
      Error_send_failed ConnectionError, Error_send_failed ConnectionError,
      Info_alert_sent (Spike_Alert ''TSLA''), Info_alert_sent (Entry_Signal ''TSLA'')] \<and>
   check_spike_and_death_candle_any missing_index ''RVSN'' initial_state =
     initial_state\<lparr>logged := [Error_checking ''RVSN'']\<rparr>"
proof -
  let ?s1 = "initial_state\<lparr>logged := logged initial_state @ [Error_fetching ''FFIE'']\<rparr>"
  let ?df = "[add_columns (lost_index spike_bar) NaN, add_columns (lost_index red_bar) NaN]"
  have d: "download (mixed_env (0 + length ([] :: ticker list))) = DownloadRaises"
    by (simp add: mixed_env_def failing_fetch_def stamped_def)
  have first: "for_stocks mixed_env 0 [''FFIE''] initial_state = ?s1"
    using failure_isolated [of mixed_env 0 "[]" "''FFIE''" "[]" initial_state] d by simp
  have g: "get_5min_candles (download missing_index) ''RVSN'' 100 st = (Some ?df, st)" for st
    by (simp add: get_5min_candles_def missing_index_def frame_world_def derive_two tail_def)
  have p1: "2 \<le> length ?df" by simp
  have p2: "fge (candle_move_pct (prev_of ?df)) (Fin 10)"
    by (simp add: prev_of_def add_columns_def lost_index_def stamped_bar_def spike_bar_def
        fsub_def)
  have p3: "index_time (prev_of ?df) = NaT"
    by (simp add: prev_of_def add_columns_def lost_index_def stamped_bar_def)
  have k: "alerted_spikes initial_state (make_key ''RVSN'' ''NaT'') = None"
    "alerted_spikes ?s1 (make_key ''RVSN'' ''NaT'') = None"
    by (simp_all add: initial_state_def)
  have alone: "check_spike_and_death_candle_any missing_index ''RVSN'' initial_state =
      initial_state\<lparr>logged := logged initial_state @ [Error_checking ''RVSN'']\<rparr>"
    by (rule failure_isolated [of mixed_env 0 "[]" "''RVSN''" "[]" initial_state initial_state
          missing_index initial_state ?df initial_state, THEN conjunct2, THEN conjunct2, THEN mp])
      (intro conjI g p1 p2 k(1) p3)
  have "try_body missing_index ''RVSN'' ?s1 = Raised ?s1"
    by (rule try_body_NaT [OF g p1 p2 k(2) p3])
  then have r: "try_body (mixed_env (0 + length [''FFIE''])) ''RVSN''
      (for_stocks mixed_env 0 [''FFIE''] initial_state) = Raised ?s1"
    unfolding first by (simp add: mixed_env_def)
  have "for_stocks mixed_env 0 ([''FFIE''] @ ''RVSN'' # [''HOOD'', ''TSLA'']) initial_state =
      for_stocks mixed_env (Suc (0 + length [''FFIE''])) [''HOOD'', ''TSLA'']
        (?s1\<lparr>logged := logged ?s1 @ [Error_checking ''RVSN'']\<rparr>)"
    by (rule failure_isolated [of mixed_env 0 "[''FFIE'']" "''RVSN''" "[''HOOD'', ''TSLA'']"
          initial_state ?s1, THEN conjunct2, THEN conjunct1, THEN mp, OF r])
  then have all: "for_stocks mixed_env 0 [''FFIE'', ''RVSN'', ''HOOD'', ''TSLA''] initial_state =
      for_stocks mixed_env (Suc (0 + length [''FFIE''])) [''HOOD'', ''TSLA'']
        (?s1\<lparr>logged := logged ?s1 @ [Error_checking ''RVSN'']\<rparr>)"
    by (simp only: append_Cons append_Nil)
  show ?thesis
    unfolding all alone
    by (simp add: mixed_env_def failing_webhook_def run_simps example_simps)
qed

section \<open>Alert sink\<close>

text \<open>Whatever an evaluation posts, with whatever outcome, it records.\<close>

lemma posted_recorded:
  assumes "(a, r) \<in> set (drop (length (posted st))
              (posted (check_spike_and_death_candle w ticker st)))"
  shows "(is_spike a \<longrightarrow>
            alerted_spikes (check_spike_and_death_candle w ticker st) (alert_key a) \<noteq> None) \<and>
         (is_entry a \<longrightarrow>
            alerted_deaths (check_spike_and_death_candle w ticker st) (alert_key a) \<noteq> None) \<and>
         (r \<noteq> Delivered \<longrightarrow>
            Error_send_failed r \<in> set (logged (check_spike_and_death_candle w ticker st)))"
proof (cases rule: check_cases [of w ticker st])
  case (skip st')
  with assms show ?thesis by simp
next
  case (branches p c)
  with assms show ?thesis
    by (auto simp: effect_fields effect_logged is_spike_def is_entry_def alert_key_def
        split: if_splits)
qed

text \<open>
  C9. \<^verbatim>\<open>send_discord_alert\<close> returns for every outcome of the webhook request. For
  every alert an evaluation posts, whatever the outcome (a failure is logged), the
  key of the alert is in the matching dictionary afterwards, and no later cycle
  posts an alert of that kind under that key again.
\<close>

theorem failed_alert_never_retried:
  assumes "(a, r) \<in> set (drop (length (posted st))
              (posted (check_spike_and_death_candle w ticker st)))"
  shows "(r \<noteq> Delivered \<longrightarrow>
            Error_send_failed r \<in> set (logged (check_spike_and_death_candle w ticker st))) \<and>
         (is_spike a \<longrightarrow>
            alerted_spikes (check_spike_and_death_candle w ticker st) (alert_key a) \<noteq> None \<and>
            spike_count (alert_key a) (cycles stocks cs (check_spike_and_death_candle w ticker st)) =
              spike_count (alert_key a) (check_spike_and_death_candle w ticker st)) \<and>
         (is_entry a \<longrightarrow>
            alerted_deaths (check_spike_and_death_candle w ticker st) (alert_key a) \<noteq> None \<and>
            entry_count (alert_key a) (cycles stocks cs (check_spike_and_death_candle w ticker st)) =
              entry_count (alert_key a) (check_spike_and_death_candle w ticker st))"
  using posted_recorded [OF assms]
    cycles_recorded_spike [of "check_spike_and_death_candle w ticker st" "alert_key a" stocks cs]
    cycles_recorded_entry [of "check_spike_and_death_candle w ticker st" "alert_key a" stocks cs]
  by blast

text \<open>
  The webhook is unreachable when the spike is first seen; a later cycle on the same
  frame with a working webhook does not post it again.
\<close>

theorem failed_alert_never_retried_witness:
  "alerted_spikes (check_spike_and_death_candle failing_webhook ''TSLA'' initial_state)
     ''TSLA_2024-01-03 10:00:00-05:00'' \<noteq> None \<and>
   spike_count ''TSLA_2024-01-03 10:00:00-05:00''
     (cycles [''TSLA''] [later_cycle]
        (check_spike_and_death_candle failing_webhook ''TSLA'' initial_state)) = 1 \<and>
   Error_send_failed ConnectionError \<in>
     set (logged (check_spike_and_death_candle failing_webhook ''TSLA'' initial_state))"
proof -
  have m: "(\<lparr>title = Spike_Alert ''TSLA'',
       description = Spike_Message ''TSLA'' (Fin 15) NaN (Fin (23 / 2))
         ''2024-01-03 10:00:00-05:00'',
       color = 16711680\<rparr>, ConnectionError)
     \<in> set (drop (length (posted initial_state))
          (posted (check_spike_and_death_candle failing_webhook ''TSLA'' initial_state)))"
    by (simp add: failing_webhook_def run_simps example_simps)
  have c: "spike_count ''TSLA_2024-01-03 10:00:00-05:00''
      (check_spike_and_death_candle failing_webhook ''TSLA'' initial_state) = 1"
    by (simp add: failing_webhook_def run_simps example_simps spike_count_def alerts_def
        is_spike_def alert_key_def)
  show ?thesis
    using failed_alert_never_retried [OF m, of "[''TSLA'']" "[later_cycle]"] c
    by (simp add: is_spike_def alert_key_def make_key_def)
qed

section \<open>Rolling volume average\<close>

lemma length_rolling_mean [simp]: "length (rolling_mean n xs) = length xs"
  by (simp add: rolling_mean_def)

lemma length_derive [simp]: "length (derive df) = length df"
  by (simp add: derive_def)

lemma take_drop_nths:
  "k + n \<le> length xs \<Longrightarrow> take n (drop k xs) = map (\<lambda>j. xs ! j) [k..<k + n]"
  by (rule nth_equalityI) simp_all

lemma rolling_mean_nth:
  assumes "i < length xs"
  shows "rolling_mean 20 xs ! i =
    (if i < 19 then NaN else window_mean (map (\<lambda>j. xs ! j) [i - 19..<Suc i]))"
proof (cases "i < 19")
  case True
  with assms show ?thesis by (simp add: rolling_mean_def)
next
  case False
  then have "i - 19 + 20 \<le> length xs" "i - 19 + 20 = Suc i" using assms by simp_all
  with take_drop_nths [of "i - 19" 20 xs] False assms show ?thesis
    by (simp add: rolling_mean_def del: upt_Suc)
qed

lemma derive_nth:
  "i < length df \<Longrightarrow>
     derive df ! i = add_columns (df ! i) (rolling_mean 20 (map Volume df) ! i)"
  by (simp add: derive_def)

lemma fdiv_NaN [simp]: "fdiv x NaN = NaN"
  by (cases x) simp_all

lemma derive_avg:
  assumes "i < length df"
  shows "volume_avg_20 (derive df ! i) =
    (if i < 19 then NaN else window_mean (map (\<lambda>j. Volume (df ! j)) [i - 19..<Suc i]))"
proof -
  have eq: "map (\<lambda>j. map Volume df ! j) [i - 19..<Suc i] =
      map (\<lambda>j. Volume (df ! j)) [i - 19..<Suc i]"
    using assms by (intro map_cong refl) auto
  from assms have "i < length (map Volume df)" by simp
  from rolling_mean_nth [OF this]
  have "rolling_mean 20 (map Volume df) ! i =
      (if i < 19 then NaN else window_mean (map (\<lambda>j. Volume (df ! j)) [i - 19..<Suc i]))"
    unfolding eq .
  with assms show ?thesis
    by (simp add: derive_nth add_columns_def del: upt_Suc)
qed

lemma derive_ratio:
  "i < length df \<Longrightarrow>
     volume_ratio (derive df ! i) = fdiv (Volume (df ! i)) (volume_avg_20 (derive df ! i))"
  by (simp add: derive_nth add_columns_def)

lemma foldl_fadd_Fin: "foldl fadd (Fin a) (map Fin vs) = Fin (a + sum_list vs)"
  by (induction vs arbitrary: a) (simp_all add: add.assoc)

lemma window_mean_Fin:
  "vs \<noteq> [] \<Longrightarrow> window_mean (map Fin vs) = Fin (sum_list vs / real (length vs))"
  by (simp add: window_mean_def foldl_fadd_Fin)

text \<open>
  C7, as the code has it. The rolling volume average of a candle is taken over the
  candle itself and the 19 candles before it. A candle with fewer than 19
  predecessors carries NaN as average and as ratio; a candle with at least 19
  predecessors carries the mean of those 20 volumes (their sum divided by 20 when
  all of them are numbers), and its ratio is its volume divided by that mean.
\<close>

theorem rolling_average_window:
  assumes "i < length df"
  shows "(i < 19 \<longrightarrow> volume_avg_20 (derive df ! i) = NaN \<and> volume_ratio (derive df ! i) = NaN) \<and>
    (19 \<le> i \<longrightarrow>
       volume_avg_20 (derive df ! i) =
         window_mean (map (\<lambda>j. Volume (df ! j)) [i - 19..<Suc i]) \<and>
       volume_ratio (derive df ! i) = fdiv (Volume (df ! i)) (volume_avg_20 (derive df ! i))) \<and>
    (19 \<le> i \<and> map (\<lambda>j. Volume (df ! j)) [i - 19..<Suc i] = map Fin vs \<longrightarrow>
       volume_avg_20 (derive df ! i) = Fin (sum_list vs / 20))"
proof (intro conjI impI)
  assume "i < 19"
  with assms show "volume_avg_20 (derive df ! i) = NaN" by (simp add: derive_avg)
  with assms show "volume_ratio (derive df ! i) = NaN" by (simp add: derive_ratio)
next
  assume "19 \<le> i"
  with assms show "volume_avg_20 (derive df ! i) =
      window_mean (map (\<lambda>j. Volume (df ! j)) [i - 19..<Suc i])"
    by (simp add: derive_avg del: upt_Suc)
next
  show "volume_ratio (derive df ! i) = fdiv (Volume (df ! i)) (volume_avg_20 (derive df ! i))"
    using assms by (rule derive_ratio)
next
  assume a: "19 \<le> i \<and> map (\<lambda>j. Volume (df ! j)) [i - 19..<Suc i] = map Fin vs"
  then have "length (map (\<lambda>j. Volume (df ! j)) [i - 19..<Suc i]) = length (map Fin vs)"
    by (rule arg_cong [OF conjunct2])
  then have "length vs = Suc i - (i - 19)" by (simp del: upt_Suc)
  with a have len: "length vs = 20" by simp
  then have "vs \<noteq> []" by auto
  from window_mean_Fin [OF this] a assms len
  show "volume_avg_20 (derive df ! i) = Fin (sum_list vs / 20)"
    by (simp add: derive_avg del: upt_Suc)
qed

lemma volumes_replicate:
  assumes "Volume b = Fin v"
  shows "map (\<lambda>j. Volume (replicate 20 b ! j)) [19 - 19..<Suc 19] = map Fin (replicate 20 v)"
  by (rule nth_equalityI) (simp_all add: assms del: upt_Suc)

lemma window_mean_replicate: "window_mean (map Fin (replicate 20 v)) = Fin v"
  using window_mean_Fin [of "replicate 20 v"] by (simp add: sum_list_replicate)

text \<open>
  C7 as stated fails: in a frame of 20 candles of volume 500000 the last candle has
  19 predecessors, fewer than 20, and yet an average of 500000 and a ratio of 1.
\<close>

theorem twentieth_candle_has_ratio:
  "volume_avg_20 (derive (replicate 20 spike_bar) ! 19) = Fin 500000 \<and>
   volume_ratio (derive (replicate 20 spike_bar) ! 19) = Fin 1"
proof -
  have v: "Volume spike_bar = Fin 500000" by (simp add: spike_bar_def)
  have "volume_avg_20 (derive (replicate 20 spike_bar) ! 19) =
      window_mean (map (\<lambda>j. Volume (replicate 20 spike_bar ! j)) [19 - 19..<Suc 19])"
    by (simp add: derive_avg del: upt_Suc)
  then have avg: "volume_avg_20 (derive (replicate 20 spike_bar) ! 19) = Fin 500000"
    unfolding volumes_replicate [OF v] window_mean_replicate .
  show ?thesis using avg v by (simp add: derive_ratio)
qed

text \<open>
  In a frame of 20 candles of volume 300000, the candle with 18 predecessors has no
  ratio and the candle with 19 predecessors has the average 300000.
\<close>

theorem rolling_average_window_witness:
  "volume_ratio (derive (replicate 20 red_bar) ! 18) = NaN \<and>
   volume_avg_20 (derive (replicate 20 red_bar) ! 19) = Fin 300000"
proof -
  have v: "Volume red_bar = Fin 300000" by (simp add: red_bar_def)
  have a: "18 < length (replicate 20 red_bar)" and b: "19 < length (replicate 20 red_bar)"
    by simp_all
  have "volume_avg_20 (derive (replicate 20 red_bar) ! 19) = Fin (sum_list (replicate 20 300000) / 20)"
    using rolling_average_window [OF b, of "replicate 20 300000"] volumes_replicate [OF v]
    by blast
  then show ?thesis
    using rolling_average_window [OF a] by (simp add: sum_list_replicate)
qed

section \<open>Independence of volume\<close>

lemma price_part_add_columns:
  "price_part (add_columns b avg) = price_part (add_columns (without_volume b) NaN)"
  by (simp add: price_part_def add_columns_def without_volume_def)

lemma price_part_derive:
  "map price_part (derive df) =
     map (\<lambda>b. price_part (add_columns b NaN)) (map without_volume df)"
proof (rule nth_equalityI)
  show "length (map price_part (derive df)) =
      length (map (\<lambda>b. price_part (add_columns b NaN)) (map without_volume df))"
    by simp
next
  fix i assume "i < length (map price_part (derive df))"
  then have i: "i < length df" by simp
  then show "map price_part (derive df) ! i =
      map (\<lambda>b. price_part (add_columns b NaN)) (map without_volume df) ! i"
    using price_part_add_columns [of "df ! i"] by (simp add: derive_nth)
qed

lemma price_part_tail: "map price_part (tail n df) = tail n (map price_part df)"
  by (simp add: tail_def drop_map)

lemma price_part_rows:
  assumes "map price_part d1 = map price_part d2" "2 \<le> length d1"
  shows "length d2 = length d1" "price_part (prev_of d1) = price_part (prev_of d2)"
    "price_part (current_of d1) = price_part (current_of d2)"
proof -
  from assms(1) have "length (map price_part d1) = length (map price_part d2)" by simp
  then show len: "length d2 = length d1" by simp
  have "map price_part d1 ! (length d1 - 2) = map price_part d2 ! (length d1 - 2)"
    "map price_part d1 ! (length d1 - 1) = map price_part d2 ! (length d1 - 1)"
    using assms(1) by simp_all
  with len assms(2) show "price_part (prev_of d1) = price_part (prev_of d2)"
    "price_part (current_of d1) = price_part (current_of d2)"
    by (simp_all add: prev_of_def current_of_def)
qed

lemma without_ratio_simps:
  "without_ratio \<lparr>title = t, description = Spike_Message tk mv vr pr ts, color = c\<rparr> =
     \<lparr>title = t, description = Spike_Message tk mv NaN pr ts, color = c\<rparr>"
  "without_ratio \<lparr>title = t, description = Entry_Message tk en sp rk ts, color = c\<rparr> =
     \<lparr>title = t, description = Entry_Message tk en sp rk ts, color = c\<rparr>"
  by (simp_all add: without_ratio_def)

lemma kind_and_key_without_ratio: "kind_and_key (without_ratio a) = kind_and_key a"
  by (cases "description a") (simp_all add: kind_and_key_def without_ratio_def alert_key_def)

lemma same_frames:
  assumes "same_but_volume d1 d2"
  shows "map_option (map price_part) (fst (get_5min_candles d1 tk n st1)) =
         map_option (map price_part) (fst (get_5min_candles d2 tk n st2))"
proof (cases d1)
  case DownloadRaises
  with assms have "d2 = DownloadRaises" by (cases d2) simp_all
  with DownloadRaises show ?thesis by (simp add: get_5min_candles_frame)
next
  case (Frame a)
  with assms obtain b where b: "d2 = Frame b" "map without_volume a = map without_volume b"
    by (cases d2) simp_all
  then have "length (map without_volume a) = length (map without_volume b)" by simp
  then have "a = [] \<longleftrightarrow> b = []" by auto
  with Frame b show ?thesis
    by (simp add: get_5min_candles_frame price_part_tail price_part_derive)
qed


lemma price_part_fields:
  assumes "price_part c1 = price_part c2"
  shows "index_time c1 = index_time c2" "Open c1 = Open c2" "High c1 = High c2"
    "Close c1 = Close c2" "candle_move_pct c1 = candle_move_pct c2"
  using assms by (simp_all add: price_part_def)

lemma emitted_skip:
  assumes "get_5min_candles (download w) tk 100 st = (r, st')"
    "r = None \<or> (\<exists>df. r = Some df \<and> length df < 2)"
  shows "emitted st (check_spike_and_death_candle w tk st) = []"
    "alerted_spikes (check_spike_and_death_candle w tk st) = alerted_spikes st"
    "alerted_deaths (check_spike_and_death_candle w tk st) = alerted_deaths st"
  using get_5min_candles_fields [of "download w" tk 100 st] assms(1)
  unfolding check_no_frame [OF assms]
  by (simp_all add: emitted_def alerts_def)

lemma volume_independent_frames:
  assumes g1: "get_5min_candles (download w1) tk 100 st1 = (Some d1, s1)"
    and g2: "get_5min_candles (download w2) tk 100 st2 = (Some d2, s2)"
    and pp: "map price_part d1 = map price_part d2" and len: "2 \<le> length d1"
    and sp: "alerted_spikes st1 = alerted_spikes st2"
    and de: "alerted_deaths st1 = alerted_deaths st2"
  shows "map without_ratio (emitted st1 (check_spike_and_death_candle w1 tk st1)) =
         map without_ratio (emitted st2 (check_spike_and_death_candle w2 tk st2)) \<and>
     alerted_spikes (check_spike_and_death_candle w1 tk st1) =
       alerted_spikes (check_spike_and_death_candle w2 tk st2) \<and>
     alerted_deaths (check_spike_and_death_candle w1 tk st1) =
       alerted_deaths (check_spike_and_death_candle w2 tk st2)"
proof -
  from price_part_rows [OF pp len] have len2: "2 \<le> length d2"
    and p: "price_part (prev_of d1) = price_part (prev_of d2)"
    and c: "price_part (current_of d1) = price_part (current_of d2)"
    using len by simp_all
  note f = price_part_fields [OF p] price_part_fields [OF c]
  have em: "map without_ratio (emitted st1 (check_spike_and_death_candle w1 tk st1)) =
         map without_ratio (emitted st2 (check_spike_and_death_candle w2 tk st2))"
    unfolding emitted_check_frame [OF g1 len] emitted_check_frame [OF g2 len2]
    by (simp add: f sp de without_ratio_simps)
  have di: "alerted_spikes (check_spike_and_death_candle w1 tk st1) =
       alerted_spikes (check_spike_and_death_candle w2 tk st2)"
     "alerted_deaths (check_spike_and_death_candle w1 tk st1) =
       alerted_deaths (check_spike_and_death_candle w2 tk st2)"
    unfolding check_on_frame [OF g1 len] check_on_frame [OF g2 len2]
    by (simp_all add: f sp de effect_fields)
  from em di show ?thesis by simp
qed

text \<open>
  C10. Two evaluations of the same ticker whose downloads are the same but for
  volume, started with the same two dictionaries, post alerts of the same kinds
  under the same keys, in the same order; the alerts are equal once the volume ratio
  in the spike message is blanked; and both evaluations leave the same dictionaries.
\<close>

theorem volume_independent:
  assumes same: "same_but_volume (download w1) (download w2)"
    and sp: "alerted_spikes st1 = alerted_spikes st2"
    and de: "alerted_deaths st1 = alerted_deaths st2"
  shows "map kind_and_key (emitted st1 (check_spike_and_death_candle w1 tk st1)) =
         map kind_and_key (emitted st2 (check_spike_and_death_candle w2 tk st2)) \<and>
     map without_ratio (emitted st1 (check_spike_and_death_candle w1 tk st1)) =
         map without_ratio (emitted st2 (check_spike_and_death_candle w2 tk st2)) \<and>
     alerted_spikes (check_spike_and_death_candle w1 tk st1) =
       alerted_spikes (check_spike_and_death_candle w2 tk st2) \<and>
     alerted_deaths (check_spike_and_death_candle w1 tk st1) =
       alerted_deaths (check_spike_and_death_candle w2 tk st2)"
proof -
  obtain r1 s1 where g1: "get_5min_candles (download w1) tk 100 st1 = (r1, s1)"
    by (cases "get_5min_candles (download w1) tk 100 st1")
  obtain r2 s2 where g2: "get_5min_candles (download w2) tk 100 st2 = (r2, s2)"
    by (cases "get_5min_candles (download w2) tk 100 st2")
  from same_frames [OF same, of tk 100 st1 st2] g1 g2
  have rr: "map_option (map price_part) r1 = map_option (map price_part) r2" by simp
  have main: "map without_ratio (emitted st1 (check_spike_and_death_candle w1 tk st1)) =
         map without_ratio (emitted st2 (check_spike_and_death_candle w2 tk st2)) \<and>
     alerted_spikes (check_spike_and_death_candle w1 tk st1) =
       alerted_spikes (check_spike_and_death_candle w2 tk st2) \<and>
     alerted_deaths (check_spike_and_death_candle w1 tk st1) =
       alerted_deaths (check_spike_and_death_candle w2 tk st2)"
  proof (cases "\<exists>d1. r1 = Some d1 \<and> 2 \<le> length d1")
    case True
    then obtain d1 where d1: "r1 = Some d1" "2 \<le> length d1" by blast
    with rr obtain d2 where d2: "r2 = Some d2" "map price_part d1 = map price_part d2"
      by (cases r2) auto
    from volume_independent_frames [OF g1 [unfolded d1(1)] g2 [unfolded d2(1)] d2(2) d1(2) sp de]
    show ?thesis .
  next
    case False
    then have s1: "r1 = None \<or> (\<exists>df. r1 = Some df \<and> length df < 2)"
      by (cases r1) (auto simp: not_le)
    have s2: "r2 = None \<or> (\<exists>df. r2 = Some df \<and> length df < 2)"
    proof (cases r2)
      case None
      then show ?thesis by simp
    next
      case (Some d2)
      with rr obtain d1 where d1: "r1 = Some d1" "map price_part d1 = map price_part d2"
        by (cases r1) auto
      from d1(2) have "length (map price_part d1) = length (map price_part d2)" by simp
      with d1(1) s1 Some show ?thesis by simp
    qed
    from emitted_skip [OF g1 s1] emitted_skip [OF g2 s2] sp de show ?thesis by simp
  qed
  have "map kind_and_key (map without_ratio xs) = map kind_and_key xs" for xs
    by (simp add: kind_and_key_without_ratio)
  with main show ?thesis by metis
qed

text \<open>
  The example frame with its volumes replaced by 1 and NaN (and a webhook that
  fails) yields the same spike alert and entry signal as the example frame.
\<close>

theorem volume_independent_witness:
  "map kind_and_key (emitted initial_state
      (check_spike_and_death_candle thin_volume ''TSLA'' initial_state)) =
     [(Spike_Alert ''TSLA'', ''TSLA_2024-01-03 10:00:00-05:00''),
      (Entry_Signal ''TSLA'', ''TSLA_2024-01-03 10:05:00-05:00'')]"
proof -
  have same: "same_but_volume (download spike_world) (download thin_volume)"
    by (simp add: spike_world_def frame_world_def thin_volume_def without_volume_def)
  have "map kind_and_key (emitted initial_state
      (check_spike_and_death_candle spike_world ''TSLA'' initial_state)) =
     [(Spike_Alert ''TSLA'', ''TSLA_2024-01-03 10:00:00-05:00''),
      (Entry_Signal ''TSLA'', ''TSLA_2024-01-03 10:05:00-05:00'')]"
    by (simp add: emitted_def alerts_def kind_and_key_def alert_key_def run_simps example_simps)
  with volume_independent [OF same, of initial_state initial_state "''TSLA''"]
  show ?thesis by simp
qed

end
